theory Spec2Isabelle
  imports Complex_Main "HOL-Library.Sublist" "HOL-Library.Char_ord"
begin

section \<open>JavaScript strings and arrays\<close>

text \<open>
  Strings are lists of characters.  The model is restricted to ASCII text: case mapping
  only touches \<open>A\<close>..\<open>Z\<close>, and white space (\<open>\s\<close> in a regular expression, the
  characters removed by \<open>trim\<close>) is tab, line feed, vertical tab, form feed, carriage
  return and space.  JavaScript numbers that are scores or confidences are modelled as
  reals (rounding is not modelled).
\<close>

definition toLowerChar :: "char \<Rightarrow> char" where
  "toLowerChar c =
     (if CHR ''A'' \<le> c \<and> c \<le> CHR ''Z'' then char_of (of_char c + (32::nat)) else c)"

definition toLowerCase :: "string \<Rightarrow> string" where
  "toLowerCase s = map toLowerChar s"

definition is_space :: "char \<Rightarrow> bool" where
  "is_space c = (c \<in> set [CHR 0x09, CHR 0x0A, CHR 0x0B, CHR 0x0C, CHR 0x0D, CHR '' ''])"

text \<open>\<open>s.indexOf(sub)\<close>: the first position where \<open>sub\<close> starts, \<open>None\<close> for \<open>-1\<close>.\<close>

fun indexOf :: "string \<Rightarrow> string \<Rightarrow> nat option" where
  "indexOf [] sub = (if sub = [] then Some 0 else None)"
| "indexOf (c # cs) sub =
     (if prefix sub (c # cs) then Some 0 else map_option Suc (indexOf cs sub))"

definition js_includes :: "string \<Rightarrow> string \<Rightarrow> bool" where
  "js_includes s sub = (indexOf s sub \<noteq> None)"

definition trim :: "string \<Rightarrow> string" where
  "trim s = rev (dropWhile is_space (rev (dropWhile is_space s)))"

text \<open>\<open>s.split(d)\<close> for a one-character separator; the result is never empty.\<close>

fun split_on :: "char \<Rightarrow> string \<Rightarrow> string list" where
  "split_on d [] = [[]]"
| "split_on d (c # cs) =
     (if c = d then [] # split_on d cs
      else (case split_on d cs of
              [] \<Rightarrow> [[c]]
            | w # ws \<Rightarrow> (c # w) # ws))"

text \<open>
  \<open>s.split(/\s+/)\<close>: a maximal run of white space is one separator, so leading or
  trailing white space gives an empty first or last token, and the empty string gives
  one empty token.
\<close>

fun split_ws :: "string \<Rightarrow> string list" where
  "split_ws [] = [[]]"
| "split_ws (c # cs) =
     (if is_space c then
        (if cs \<noteq> [] \<and> is_space (hd cs) then split_ws cs else [] # split_ws cs)
      else (case split_ws cs of
              [] \<Rightarrow> [[c]]
            | w # ws \<Rightarrow> (c # w) # ws))"

text \<open>\<open>xs.join(sep)\<close>.\<close>

fun join :: "string \<Rightarrow> string list \<Rightarrow> string" where
  "join sep [] = []"
| "join sep [x] = x"
| "join sep (x # y # ys) = x @ sep @ join sep (y # ys)"

text \<open>
  \<open>xs.slice(s, e)\<close> with JavaScript's treatment of negative and out-of-range indices.
\<close>

definition slice_index :: "nat \<Rightarrow> int \<Rightarrow> nat" where
  "slice_index n i = (if i < 0 then nat (max (int n + i) 0) else min (nat i) n)"

definition js_slice :: "'a list \<Rightarrow> int \<Rightarrow> int \<Rightarrow> 'a list" where
  "js_slice xs s e =
     (let a = slice_index (length xs) s; b = slice_index (length xs) e
      in take (b - a) (drop a xs))"

text \<open>
  The host's regular-expression engine is not part of the repository.  It is a parameter:
  \<open>re pattern flags text\<close> is \<open>None\<close> when \<open>new RegExp(pattern, flags)\<close> throws,
  \<open>Some None\<close> when the expression has no match in \<open>text\<close>, and \<open>Some (Some m)\<close>
  when \<open>m\<close> is its first match.
\<close>

type_synonym RegExp_host = "string \<Rightarrow> string \<Rightarrow> string \<Rightarrow> string option option"

text \<open>
  \<open>Array.prototype.sort\<close> with the comparator \<open>(a, b) => key(b) - key(a)\<close> is a
  stable sort by descending key.
\<close>

definition sort_desc :: "('a \<Rightarrow> real) \<Rightarrow> 'a list \<Rightarrow> 'a list" where
  "sort_desc key xs = sort_key (\<lambda>x. - key x) xs"

section \<open>Customer detector (class \<open>CustomerDetector\<close>, customer-detector.ts)\<close>

record Customer =
  c_id :: string
  c_name :: string

datatype PatternType = PText | PRegex | PPosition | PHeader | PFooter

record DetectionPattern =
  ptype :: PatternType
  dp_pattern :: string
  weight :: real
  caseSensitive :: bool

datatype DetectionMethod = exact_match | fuzzy_match | pattern_match | ml_classification

record CustomerDetectionResult =
  customerId :: "string option"
  customerName :: "string option"
  confidence :: real
  matchedPatterns :: "string list"
  detectionMethod :: DetectionMethod

text \<open>The text a pattern is searched in, and the pattern, under its case rule.\<close>

definition pattern_found :: "string \<Rightarrow> DetectionPattern \<Rightarrow> bool" where
  "pattern_found text p =
     (let searchText = (if caseSensitive p then text else toLowerCase text);
          searchPattern = (if caseSensitive p then dp_pattern p else toLowerCase (dp_pattern p))
      in js_includes searchText searchPattern)"

definition weighted_result ::
  "Customer \<Rightarrow> real \<Rightarrow> real \<Rightarrow> real \<Rightarrow> string list \<Rightarrow> DetectionMethod \<Rightarrow> CustomerDetectionResult"
where
  "weighted_result customer threshold totalWeight matchedWeight matched method =
     (let conf = (if totalWeight > 0 then matchedWeight / totalWeight else 0)
      in \<lparr> customerId = (if conf > threshold then Some (c_id customer) else None),
           customerName = (if conf > threshold then Some (c_name customer) else None),
           confidence = conf,
           matchedPatterns = matched,
           detectionMethod = method \<rparr>)"

definition checkExactMatch ::
  "string \<Rightarrow> Customer \<Rightarrow> DetectionPattern list \<Rightarrow> CustomerDetectionResult" where
  "checkExactMatch text customer patterns =
     (let textPatterns = filter (\<lambda>p. ptype p = PText) patterns;
          hits = filter (pattern_found text) textPatterns
      in weighted_result customer (5 / 10)
           (sum_list (map weight textPatterns)) (sum_list (map weight hits))
           (map dp_pattern hits) exact_match)"

definition regex_found :: "RegExp_host \<Rightarrow> string \<Rightarrow> DetectionPattern \<Rightarrow> bool" where
  "regex_found re text p =
     (case re (dp_pattern p) (if caseSensitive p then ''g'' else ''gi'') text of
        None \<Rightarrow> False
      | Some None \<Rightarrow> False
      | Some (Some m) \<Rightarrow> True)"

definition checkPatternMatch ::
  "RegExp_host \<Rightarrow> string \<Rightarrow> Customer \<Rightarrow> DetectionPattern list \<Rightarrow> CustomerDetectionResult"
where
  "checkPatternMatch re text customer patterns =
     (let regexPatterns = filter (\<lambda>p. ptype p = PRegex) patterns;
          regexHits = filter (regex_found re text) regexPatterns;
          lines = split_on CHR 0x0A text;
          headerLines = js_slice lines 0 (int (min 5 (length lines)));
          footerLines = js_slice lines (- int (min 5 (length lines))) (int (length lines));
          hfPatterns = filter (\<lambda>p. ptype p = PHeader \<or> ptype p = PFooter) patterns;
          hfHits = filter (\<lambda>p. pattern_found
                       (join '' '' (if ptype p = PHeader then headerLines else footerLines)) p)
                     hfPatterns
      in weighted_result customer (6 / 10)
           (sum_list (map weight regexPatterns) + sum_list (map weight hfPatterns))
           (sum_list (map weight regexHits) + sum_list (map weight hfHits))
           (map dp_pattern regexHits @ map dp_pattern hfHits) pattern_match)"

definition fuzzy_words :: "Customer \<Rightarrow> string list" where
  "fuzzy_words customer = split_ws (toLowerCase (c_name customer))"

definition fuzzy_hits :: "string \<Rightarrow> Customer \<Rightarrow> string list" where
  "fuzzy_hits text customer =
     filter (\<lambda>word. length word > 2 \<and> js_includes (toLowerCase text) word) (fuzzy_words customer)"

definition checkFuzzyMatch :: "string \<Rightarrow> Customer \<Rightarrow> CustomerDetectionResult" where
  "checkFuzzyMatch text customer =
     (let words = fuzzy_words customer;
          hits = fuzzy_hits text customer;
          conf = (if length words > 0
                  then (real (length hits) / real (length words)) * (8 / 10) else 0)
      in \<lparr> customerId = (if conf > 5 / 10 then Some (c_id customer) else None),
           customerName = (if conf > 5 / 10 then Some (c_name customer) else None),
           confidence = conf,
           matchedPatterns = hits,
           detectionMethod = fuzzy_match \<rparr>)"

definition checkFilenameMatch ::
  "string \<Rightarrow> Customer \<Rightarrow> DetectionPattern list \<Rightarrow> CustomerDetectionResult" where
  "checkFilenameMatch fileName customer patterns =
     (let fileNameLower = toLowerCase fileName;
          wordHits = filter (\<lambda>word. length word > 2 \<and> js_includes fileNameLower word)
                       (split_ws (toLowerCase (c_name customer)));
          patternHits = filter (\<lambda>p. js_includes fileNameLower (toLowerCase (dp_pattern p)))
                          patterns;
          conf = min (real (length wordHits) * (3 / 10) + real (length patternHits) * (4 / 10))
                     (9 / 10)
      in \<lparr> customerId = (if conf > 5 / 10 then Some (c_id customer) else None),
           customerName = (if conf > 5 / 10 then Some (c_name customer) else None),
           confidence = conf,
           matchedPatterns = wordHits @ map dp_pattern patternHits,
           detectionMethod = fuzzy_match \<rparr>)"

text \<open>
  The candidates one customer contributes to the pool, in the order the loop body pushes
  them.  \<open>patterns\<close> is the detector's map from customer id to parsed patterns; a customer
  without an entry has no patterns.  An absent or empty file name skips the last check.
\<close>

definition candidates ::
  "RegExp_host \<Rightarrow> (string \<rightharpoonup> DetectionPattern list) \<Rightarrow> string \<Rightarrow> string option \<Rightarrow> Customer
     \<Rightarrow> CustomerDetectionResult list" where
  "candidates re patterns text fileName customer =
     (let ps = (case patterns (c_id customer) of None \<Rightarrow> [] | Some ps \<Rightarrow> ps)
      in filter (\<lambda>r. confidence r > 0)
           ([checkExactMatch text customer ps,
             checkPatternMatch re text customer ps,
             checkFuzzyMatch text customer]
            @ (case fileName of
                 None \<Rightarrow> []
               | Some fn \<Rightarrow> if fn = [] then [] else [checkFilenameMatch fn customer ps])))"

definition no_match :: CustomerDetectionResult where
  "no_match = \<lparr> customerId = None, customerName = None, confidence = 0,
                matchedPatterns = [], detectionMethod = exact_match \<rparr>"

definition detection_pool ::
  "RegExp_host \<Rightarrow> Customer list \<Rightarrow> (string \<rightharpoonup> DetectionPattern list) \<Rightarrow> string \<Rightarrow> string option
     \<Rightarrow> CustomerDetectionResult list" where
  "detection_pool re customers patterns text fileName =
     concat (map (candidates re patterns text fileName) customers)"

definition detectCustomer ::
  "RegExp_host \<Rightarrow> Customer list \<Rightarrow> (string \<rightharpoonup> DetectionPattern list) \<Rightarrow> string \<Rightarrow> string option
     \<Rightarrow> CustomerDetectionResult" where
  "detectCustomer re customers patterns text fileName =
     (case sort_desc confidence (detection_pool re customers patterns text fileName) of
        [] \<Rightarrow> no_match
      | best # rest \<Rightarrow> best)"

section \<open>Template engine (class \<open>TemplateEngine\<close>, template-engine.ts)\<close>

subsection \<open>Values and the host\<close>

text \<open>
  An extracted value is a string or a number.  JavaScript numbers that flow through field
  values are kept abstract (type \<open>'n\<close>): their arithmetic, parsing, printing and
  comparison belong to the host, as do the regular-expression engine, \<open>Date.parse\<close> and
  \<open>eval\<close>.  \<open>parseFloat\<close> gives \<open>None\<close> for \<open>NaN\<close>; \<open>js_eval\<close> gives \<open>Inl\<close> of the
  message when the evaluation throws and \<open>Inr None\<close> for \<open>null\<close> or \<open>undefined\<close>;
  \<open>regExp_replace pattern subject replacement\<close> is
  \<open>subject.replace(new RegExp(pattern, 'g'), replacement)\<close>, \<open>None\<close> when the
  constructor throws.
\<close>

datatype 'n jsvalue = JStr string | JNum 'n

record 'n host =
  regExp :: RegExp_host
  regExp_replace :: "string \<Rightarrow> string \<Rightarrow> string \<Rightarrow> string option"
  js_eval :: "string \<Rightarrow> string + 'n jsvalue option"
  parseFloat :: "string \<Rightarrow> 'n option"
  num_to_string :: "'n \<Rightarrow> string"
  date_valid :: "string \<Rightarrow> bool"
  num_of_int :: "int \<Rightarrow> 'n"
  num_add :: "'n \<Rightarrow> 'n \<Rightarrow> 'n"
  num_sub :: "'n \<Rightarrow> 'n \<Rightarrow> 'n"
  num_mul :: "'n \<Rightarrow> 'n \<Rightarrow> 'n"
  num_div :: "'n \<Rightarrow> 'n \<Rightarrow> 'n"
  num_less :: "'n \<Rightarrow> 'n \<Rightarrow> bool"

text \<open>\<open>String(value)\<close>.\<close>

definition js_String :: "'n host \<Rightarrow> 'n jsvalue \<Rightarrow> string" where
  "js_String h v = (case v of JStr s \<Rightarrow> s | JNum n \<Rightarrow> num_to_string h n)"

text \<open>Decimal rendering of the integers that appear in messages.\<close>

fun show_nat :: "nat \<Rightarrow> string" where
  "show_nat n =
     (if n < 10 then [char_of (48 + n)] else show_nat (n div 10) @ [char_of (48 + n mod 10)])"

declare show_nat.simps [simp del]

definition show_int :: "int \<Rightarrow> string" where
  "show_int i = (if i < 0 then CHR ''-'' # show_nat (nat (- i)) else show_nat (nat i))"

text \<open>
  An object with string keys as an association list in insertion order: assigning to an
  existing key keeps its place, a new key goes to the end.
\<close>

fun obj_set :: "string \<Rightarrow> 'v \<Rightarrow> (string \<times> 'v) list \<Rightarrow> (string \<times> 'v) list" where
  "obj_set k v [] = [(k, v)]"
| "obj_set k v ((k', v') # kvs) =
     (if k' = k then (k, v) # kvs else (k', v') # obj_set k v kvs)"

definition obj_get :: "(string \<times> 'v) list \<Rightarrow> string \<Rightarrow> 'v option" where
  "obj_get kvs k = map_of kvs k"

subsection \<open>Rules, mappings, templates\<close>

datatype ExtractionType = TRegex | TPosition | TTable | TKeyword | TCalculation | TUnknown string

record Position =
  page :: "int option"
  pos_x :: "int option"
  pos_y :: "int option"
  pos_width :: "int option"
  pos_height :: "int option"

record TableConfig =
  tableIndex :: int
  columnIndex :: "int option"
  rowIndex :: "int option"
  headerName :: "string option"

datatype Direction = Before | After | SameLine

record KeywordConfig =
  cfg_keywords :: "string list"
  searchRadius :: int
  direction :: Direction

datatype Operation = OpSum | OpMultiply | OpSubtract | OpDivide | OpUnknown string

record CalculationConfig =
  operation :: Operation
  sourceFields :: "string list"
  formula :: "string option"

datatype DataType = DString | DNumber | DDate | DCurrency | DPercentage

record Validation =
  dataType :: DataType
  required :: bool
  minLength :: "int option"
  maxLength :: "int option"
  v_pattern :: "string option"

record ExtractionRule =
  fieldName :: string
  extractionType :: ExtractionType
  r_pattern :: "string option"
  r_position :: "Position option"
  tableConfig :: "TableConfig option"
  keywordConfig :: "KeywordConfig option"
  calculationConfig :: "CalculationConfig option"
  validation :: "Validation option"

record HardcodedMapping =
  m_fieldName :: string
  sourcePattern :: string
  targetValue :: string
  priority :: int
  m_isActive :: bool

record Template =
  t_id :: string
  t_customerId :: string
  t_name :: string
  t_isActive :: bool
  extractionRules :: "ExtractionRule list"
  hardcodedMappings :: "HardcodedMapping list"

record TableData =
  rows :: "string list list"
  headers :: "string list option"

text \<open>
  The structured data handed to \<open>processDocument\<close>: the pre-extracted tables, and for
  every own property of the object its name with \<open>String(value || 0)\<close>, which is all
  that \<open>calculateValue\<close> reads of it.
\<close>

record StructuredData =
  tables :: "TableData list option"
  rendered :: "(string \<times> string) list"

record 'n ProcessingResult =
  success :: bool
  extractedData :: "(string \<times> 'n jsvalue) list"
  pr_confidence :: real
  errors :: "string list"
  warnings :: "string list"

subsection \<open>\<open>initialize\<close>\<close>

text \<open>
  The query loads the active templates, each with its active mappings ordered by
  priority, highest first.  The engine's map keeps them in the order of the query result.
  (Mappings of equal priority come in the order the database gives; the model keeps their
  stored order.)
\<close>

definition initialize :: "Template list \<Rightarrow> Template list" where
  "initialize stored =
     map (\<lambda>t. t\<lparr>hardcodedMappings :=
                   sort_key (\<lambda>m. - priority m) (filter m_isActive (hardcodedMappings t))\<rparr>)
         (filter t_isActive stored)"

subsection \<open>\<open>selectTemplate\<close> and \<open>scoreTemplate\<close>\<close>

definition rule_points :: "'n host \<Rightarrow> string \<Rightarrow> ExtractionRule \<Rightarrow> real" where
  "rule_points h txt rule =
     (case extractionType rule of
        TKeyword \<Rightarrow>
          (case keywordConfig rule of
             None \<Rightarrow> 0
           | Some cfg \<Rightarrow>
               if list_ex (\<lambda>keyword. js_includes (toLowerCase txt) (toLowerCase keyword))
                    (cfg_keywords cfg)
               then 1 else 0)
      | TRegex \<Rightarrow>
          (case r_pattern rule of
             None \<Rightarrow> 0
           | Some p \<Rightarrow>
               if p = [] then 0
               else (case regExp h p ''gi'' txt of
                       Some (Some m) \<Rightarrow> 1
                     | _ \<Rightarrow> 0))
      | TPosition \<Rightarrow> 5 / 10
      | _ \<Rightarrow> 0)"

definition name_points :: "Template \<Rightarrow> string \<Rightarrow> string \<Rightarrow> real" where
  "name_points template txt word =
     (if js_includes (toLowerCase (t_name template)) word \<and> js_includes (toLowerCase txt) word
      then 2 else 0)"

definition template_points :: "'n host \<Rightarrow> Template \<Rightarrow> string \<Rightarrow> real" where
  "template_points h template txt =
     sum_list (map (rule_points h txt) (extractionRules template))
     + name_points template txt ''invoice''
     + name_points template txt ''receipt''
     + name_points template txt ''statement''"

definition scoreTemplate :: "'n host \<Rightarrow> Template \<Rightarrow> string \<Rightarrow> real" where
  "scoreTemplate h template txt =
     (let score = template_points h template txt;
          totalChecks = length (extractionRules template) + 3
      in if totalChecks > 0 then score / real totalChecks else 0)"

definition selectTemplate :: "'n host \<Rightarrow> Template list \<Rightarrow> string \<Rightarrow> string \<Rightarrow> Template option" where
  "selectTemplate h templates cid txt =
     (let customerTemplates = filter (\<lambda>template. t_customerId template = cid) templates
      in if length customerTemplates = 0 then None
         else if length customerTemplates = 1 then Some (hd customerTemplates)
         else (case sort_desc (\<lambda>template. scoreTemplate h template txt) customerTemplates of
                 [] \<Rightarrow> Some (hd customerTemplates)
               | best # rest \<Rightarrow>
                   if scoreTemplate h best txt > 3 / 10 then Some best
                   else Some (hd customerTemplates)))"

subsection \<open>Field extraction\<close>

text \<open>A thrown exception is \<open>Inl\<close> of its message; \<open>Inr None\<close> is \<open>null\<close>.\<close>

definition extractWithRegex ::
  "'n host \<Rightarrow> ExtractionRule \<Rightarrow> string \<Rightarrow> string + 'n jsvalue option" where
  "extractWithRegex h rule txt =
     (case r_pattern rule of
        None \<Rightarrow> Inr None
      | Some p \<Rightarrow>
          if p = [] then Inr None
          else (case regExp h p ''gi'' txt of
                  None \<Rightarrow> Inl (''Invalid regex pattern: '' @ p)
                | Some None \<Rightarrow> Inr None
                | Some (Some m) \<Rightarrow> Inr (Some (JStr m))))"

text \<open>
  Line terminators are the characters the regular-expression dot does not match (line
  feed and carriage return, in ASCII).
\<close>

definition line_terminator :: "char \<Rightarrow> bool" where
  "line_terminator c = (c = CHR 0x0A \<or> c = CHR 0x0D)"

definition colon_or_space :: "char \<Rightarrow> bool" where
  "colon_or_space c = (c = CHR '':'' \<or> is_space c)"

text \<open>
  The first group of \<open>/^[:\s]*(.+)$/\<close> on \<open>s\<close>.  The star is greedy and gives back
  characters only as far as the group needs one; the group must run to the end of the
  string without meeting a line terminator.
\<close>

definition match_after_colon :: "string \<Rightarrow> string option" where
  "match_after_colon s =
     (if s = [] then None
      else (let k = min (length (takeWhile colon_or_space s)) (length s - 1);
                rest = drop k s
            in if list_all (\<lambda>c. \<not> line_terminator c) rest then Some rest else None))"

definition same_line_value :: "string \<Rightarrow> string \<Rightarrow> nat \<Rightarrow> string option" where
  "same_line_value line keyword keywordIndex =
     (let afterKeyword = trim (drop (keywordIndex + length keyword) line)
      in map_option trim (match_after_colon afterKeyword))"

text \<open>
  The lines the \<open>after\<close> and \<open>before\<close> loops visit from line \<open>i\<close>, trimmed, in the
  order of the visit.
\<close>

definition lines_after :: "string list \<Rightarrow> nat \<Rightarrow> int \<Rightarrow> string list" where
  "lines_after lns i radius =
     (let last_j = min (int i + radius) (int (length lns) - 1)
      in map trim (take (nat (last_j - int i)) (drop (i + 1) lns)))"

definition lines_before :: "string list \<Rightarrow> nat \<Rightarrow> int \<Rightarrow> string list" where
  "lines_before lns i radius =
     (let first_j = max (int i - radius) 0
      in map trim (take (nat (int i - first_j)) (rev (take i lns))))"

text \<open>
  One iteration of the inner loop: \<open>Some r\<close> when the function returns \<open>r\<close> at this
  line, \<open>None\<close> when the loop goes on to the next line.
\<close>

definition line_step :: "KeywordConfig \<Rightarrow> string \<Rightarrow> string list \<Rightarrow> nat \<Rightarrow> string option option" where
  "line_step cfg keyword lns i =
     (let line = lns ! i
      in case indexOf (toLowerCase line) (toLowerCase keyword) of
           None \<Rightarrow> None
         | Some keywordIndex \<Rightarrow>
             (case direction cfg of
                SameLine \<Rightarrow> Some (same_line_value line keyword keywordIndex)
              | After \<Rightarrow>
                  (case find (\<lambda>l. l \<noteq> []) (lines_after lns i (searchRadius cfg)) of
                     Some nextLine \<Rightarrow> Some (Some nextLine)
                   | None \<Rightarrow> None)
              | Before \<Rightarrow>
                  (case find (\<lambda>l. l \<noteq> []) (lines_before lns i (searchRadius cfg)) of
                     Some prevLine \<Rightarrow> Some (Some prevLine)
                   | None \<Rightarrow> None)))"

fun scan_lines :: "KeywordConfig \<Rightarrow> string \<Rightarrow> string list \<Rightarrow> nat list \<Rightarrow> string option option" where
  "scan_lines cfg keyword lns [] = None"
| "scan_lines cfg keyword lns (i # is) =
     (case line_step cfg keyword lns i of
        Some r \<Rightarrow> Some r
      | None \<Rightarrow> scan_lines cfg keyword lns is)"

fun scan_keywords :: "KeywordConfig \<Rightarrow> string list \<Rightarrow> string list \<Rightarrow> string option" where
  "scan_keywords cfg lns [] = None"
| "scan_keywords cfg lns (keyword # rest) =
     (case scan_lines cfg keyword lns [0 ..< length lns] of
        Some r \<Rightarrow> r
      | None \<Rightarrow> scan_keywords cfg lns rest)"

definition extractWithKeyword :: "ExtractionRule \<Rightarrow> string \<Rightarrow> string option" where
  "extractWithKeyword rule txt =
     (case keywordConfig rule of
        None \<Rightarrow> None
      | Some cfg \<Rightarrow> scan_keywords cfg (split_on CHR 0x0A txt) (cfg_keywords cfg))"

text \<open>
  Array reads: \<open>xs[i]\<close> is \<open>undefined\<close> (\<open>None\<close>) outside the array.  A property read
  on \<open>undefined\<close> throws a \<open>TypeError\<close>, whose message is the host's.
\<close>

definition at_index :: "'a list \<Rightarrow> int \<Rightarrow> 'a option" where
  "at_index xs i = (if 0 \<le> i \<and> i < int (length xs) then Some (xs ! nat i) else None)"

definition find_index :: "('a \<Rightarrow> bool) \<Rightarrow> 'a list \<Rightarrow> nat option" where
  "find_index P xs =
     (if list_ex P xs then Some (length (takeWhile (\<lambda>x. \<not> P x) xs)) else None)"

definition cell_or_null :: "string list \<Rightarrow> int \<Rightarrow> 'n jsvalue option" where
  "cell_or_null row i =
     (case at_index row i of
        None \<Rightarrow> None
      | Some cell \<Rightarrow> if cell = [] then None else Some (JStr cell))"

definition extractFromTable ::
  "ExtractionRule \<Rightarrow> TableData list \<Rightarrow> string + 'n jsvalue option" where
  "extractFromTable rule tbls =
     (case tableConfig rule of
        None \<Rightarrow> Inr None
      | Some cfg \<Rightarrow>
          if length tbls = 0 then Inr None
          else if tableIndex cfg \<ge> int (length tbls) then Inr None
          else (case at_index tbls (tableIndex cfg) of
                  None \<Rightarrow>
                    if (headerName cfg \<noteq> None \<and> headerName cfg \<noteq> Some [])
                       \<or> columnIndex cfg \<noteq> None
                    then Inl ''TypeError'' else Inr None
                | Some tbl \<Rightarrow>
                    if headerName cfg \<noteq> None \<and> headerName cfg \<noteq> Some [] then
                      (case (case headers tbl of
                               Some hs \<Rightarrow> Some hs
                             | None \<Rightarrow> at_index (rows tbl) 0) of
                         None \<Rightarrow> Inl ''TypeError''
                       | Some headerRow \<Rightarrow>
                           (case find_index
                                   (\<lambda>header. js_includes (toLowerCase header)
                                                (toLowerCase (the (headerName cfg))))
                                   headerRow of
                              None \<Rightarrow> Inr None
                            | Some colIndex \<Rightarrow>
                                if length (rows tbl) > 1
                                then Inr (cell_or_null (rows tbl ! 1) (int colIndex))
                                else Inr None))
                    else (case columnIndex cfg of
                            None \<Rightarrow> Inr None
                          | Some col \<Rightarrow>
                              (let targetRow = (case rowIndex cfg of Some r \<Rightarrow> r | None \<Rightarrow> 1)
                               in if int (length (rows tbl)) > targetRow
                                  then (case at_index (rows tbl) targetRow of
                                          None \<Rightarrow> Inl ''TypeError''
                                        | Some row \<Rightarrow>
                                            if int (length row) > col
                                            then Inr (cell_or_null row col)
                                            else Inr None)
                                  else Inr None))))"

definition extractFromPosition :: "ExtractionRule \<Rightarrow> string \<Rightarrow> string option" where
  "extractFromPosition rule txt =
     (case r_position rule of
        None \<Rightarrow> None
      | Some pos \<Rightarrow>
          (let lns = split_on CHR 0x0A txt
           in if page pos \<noteq> None \<and> page pos \<noteq> Some 0 then
                (let y = (case pos_y pos of Some v \<Rightarrow> v | None \<Rightarrow> 0);
                     height = (case pos_height pos of
                                 Some v \<Rightarrow> if v = 0 then 1 else v
                               | None \<Rightarrow> 1);
                     startLine = max 0 (y - 2);
                     endLine = min (int (length lns)) (startLine + height)
                 in Some (trim (join '' '' (js_slice lns startLine endLine))))
              else None))"

text \<open>
  \<open>calculateValue\<close> reads the structured data (not the fields extracted so far).  A
  property that is absent reads as \<open>0\<close>.
\<close>

definition source_value :: "'n host \<Rightarrow> StructuredData \<Rightarrow> string \<Rightarrow> 'n option" where
  "source_value h sdata field =
     parseFloat h (case map_of (rendered sdata) field of Some s \<Rightarrow> s | None \<Rightarrow> ''0'')"

fun substitute :: "'n host \<Rightarrow> (string \<times> string) list \<Rightarrow> string \<Rightarrow> string option" where
  "substitute h [] expression = Some expression"
| "substitute h ((field, v) # rest) expression =
     (case regExp_replace h (CHR 0x5C # ''{'' @ field @ CHR 0x5C # ''}'') expression v of
        None \<Rightarrow> None
      | Some expression' \<Rightarrow> substitute h rest expression')"

definition calculateValue ::
  "'n host \<Rightarrow> ExtractionRule \<Rightarrow> StructuredData \<Rightarrow> string + 'n jsvalue option" where
  "calculateValue h rule sdata =
     (case calculationConfig rule of
        None \<Rightarrow> Inr None
      | Some cfg \<Rightarrow>
          if formula cfg \<noteq> None \<and> formula cfg \<noteq> Some [] then
            (case substitute h (rendered sdata) (the (formula cfg)) of
               None \<Rightarrow> Inl ''Formula evaluation failed: SyntaxError''
             | Some expression \<Rightarrow>
                 (case js_eval h expression of
                    Inl msg \<Rightarrow> Inl (''Formula evaluation failed: '' @ msg)
                  | Inr v \<Rightarrow> Inr v))
          else
            (let vals = List.map_filter (source_value h sdata) (sourceFields cfg)
             in if length vals = 0 then Inr None
                else (case operation cfg of
                        OpSum \<Rightarrow> Inr (Some (JNum (foldl (num_add h) (num_of_int h 0) vals)))
                      | OpMultiply \<Rightarrow> Inr (Some (JNum (foldl (num_mul h) (num_of_int h 1) vals)))
                      | OpSubtract \<Rightarrow> Inr (Some (JNum (foldl (num_sub h) (hd vals) (tl vals))))
                      | OpDivide \<Rightarrow> Inr (Some (JNum (foldl (num_div h) (hd vals) (tl vals))))
                      | OpUnknown other \<Rightarrow> Inr None)))"

definition extractField ::
  "'n host \<Rightarrow> ExtractionRule \<Rightarrow> string \<Rightarrow> StructuredData \<Rightarrow> string + 'n jsvalue option" where
  "extractField h rule txt sdata =
     (case extractionType rule of
        TRegex \<Rightarrow> extractWithRegex h rule txt
      | TKeyword \<Rightarrow> Inr (map_option JStr (extractWithKeyword rule txt))
      | TTable \<Rightarrow> extractFromTable rule (case tables sdata of Some ts \<Rightarrow> ts | None \<Rightarrow> [])
      | TPosition \<Rightarrow> Inr (map_option JStr (extractFromPosition rule txt))
      | TCalculation \<Rightarrow> calculateValue h rule sdata
      | TUnknown other \<Rightarrow> Inl (''Unknown extraction type: '' @ other))"

subsection \<open>Hardcoded mappings\<close>

text \<open>
  \<open>matchWildcard\<close> builds the expression \<open>^\<close>\<dots>\<open>$\<close> with flag \<open>i\<close> from the
  pattern, replacing every \<open>*\<close> by \<open>.*\<close> and then every \<open>?\<close> by a dot.  When the
  body so built has no regular-expression syntax character besides the dot and the stars
  that follow dots, what ECMAScript's engine answers is computed here: a dot is any
  character but a line terminator, \<open>.*\<close> any run of such characters, any other
  character stands for itself up to case.  Every other body is left to the host's engine.
\<close>

definition glob_to_regex :: "string \<Rightarrow> string" where
  "glob_to_regex pat =
     map (\<lambda>c. if c = CHR ''?'' then CHR ''.'' else c)
       (concat (map (\<lambda>c. if c = CHR ''*'' then ''.*'' else [c]) pat))"

datatype rx_token = RLit char | RAny | RAnyStar

definition syntax_char :: "char \<Rightarrow> bool" where
  "syntax_char c = (c \<in> set [CHR ''^'', CHR ''$'', CHR 0x5C, CHR ''.'', CHR ''*'', CHR ''+'',
                              CHR ''?'', CHR ''('', CHR '')'', CHR ''['', CHR '']'', CHR ''{'',
                              CHR ''}'', CHR ''|'', CHR ''/''])"

fun rx_tokens :: "string \<Rightarrow> rx_token list option" where
  "rx_tokens [] = Some []"
| "rx_tokens [c] =
     (if c = CHR ''.'' then Some [RAny]
      else if syntax_char c then None else Some [RLit c])"
| "rx_tokens (c # d # cs) =
     (if c = CHR ''.'' \<and> d = CHR ''*'' then map_option (Cons RAnyStar) (rx_tokens cs)
      else if c = CHR ''.'' then map_option (Cons RAny) (rx_tokens (d # cs))
      else if syntax_char c then None
      else map_option (Cons (RLit c)) (rx_tokens (d # cs)))"

fun rx_match :: "rx_token list \<Rightarrow> string \<Rightarrow> bool" where
  "rx_match [] s = (s = [])"
| "rx_match (RLit c # ts) [] = False"
| "rx_match (RLit c # ts) (x # xs) = (toLowerChar x = toLowerChar c \<and> rx_match ts xs)"
| "rx_match (RAny # ts) [] = False"
| "rx_match (RAny # ts) (x # xs) = (\<not> line_terminator x \<and> rx_match ts xs)"
| "rx_match (RAnyStar # ts) [] = rx_match ts []"
| "rx_match (RAnyStar # ts) (x # xs) =
     (rx_match ts (x # xs) \<or> (\<not> line_terminator x \<and> rx_match (RAnyStar # ts) xs))"

definition matchWildcard :: "'n host \<Rightarrow> string \<Rightarrow> string \<Rightarrow> bool" where
  "matchWildcard h txt pat =
     (let regexPattern = glob_to_regex pat
      in case rx_tokens regexPattern of
           Some ts \<Rightarrow> rx_match ts txt
         | None \<Rightarrow>
             (case regExp h (''^'' @ regexPattern @ ''$'') ''i'' txt of
                None \<Rightarrow> False
              | Some None \<Rightarrow> False
              | Some (Some m) \<Rightarrow> True))"

definition mapping_matches :: "'n host \<Rightarrow> HardcodedMapping \<Rightarrow> 'n jsvalue \<Rightarrow> bool" where
  "mapping_matches h mapping v =
     (let pat = toLowerCase (sourcePattern mapping);
          valueStr = toLowerCase (js_String h v)
      in js_includes valueStr pat \<or> (CHR ''*'' \<in> set pat \<and> matchWildcard h valueStr pat))"

fun first_mapping :: "'n host \<Rightarrow> HardcodedMapping list \<Rightarrow> 'n jsvalue \<Rightarrow> 'n jsvalue" where
  "first_mapping h [] v = v"
| "first_mapping h (mapping # rest) v =
     (if mapping_matches h mapping v then JStr (targetValue mapping)
      else first_mapping h rest v)"

definition applyHardcodedMappings ::
  "'n host \<Rightarrow> HardcodedMapping list \<Rightarrow> string \<Rightarrow> 'n jsvalue \<Rightarrow> 'n jsvalue" where
  "applyHardcodedMappings h mappings field v =
     first_mapping h (filter (\<lambda>m. m_fieldName m = field) mappings) v"

subsection \<open>Validation\<close>

definition is_digit :: "char \<Rightarrow> bool" where
  "is_digit c = (CHR ''0'' \<le> c \<and> c \<le> CHR ''9'')"

text \<open>\<open>/^\$?\d+\.?\d*$/\<close>.\<close>

definition currency_shape :: "string \<Rightarrow> bool" where
  "currency_shape s =
     (let s1 = (if s \<noteq> [] \<and> hd s = CHR ''$'' then tl s else s);
          ds = takeWhile is_digit s1;
          r = dropWhile is_digit s1;
          r1 = (if r \<noteq> [] \<and> hd r = CHR ''.'' then tl r else r)
      in ds \<noteq> [] \<and> list_all is_digit r1)"

record ValidationResult =
  isValid :: bool
  v_errors :: "string list"

definition type_errors :: "'n host \<Rightarrow> DataType \<Rightarrow> 'n jsvalue \<Rightarrow> string list" where
  "type_errors h dt v =
     (case dt of
        DNumber \<Rightarrow>
          if parseFloat h (js_String h v) = None then [''Value must be a number''] else []
      | DDate \<Rightarrow>
          if \<not> date_valid h (js_String h v) then [''Value must be a valid date''] else []
      | DCurrency \<Rightarrow>
          if \<not> currency_shape (filter (\<lambda>c. c \<noteq> CHR '','') (js_String h v))
          then [''Value must be a valid currency amount''] else []
      | DPercentage \<Rightarrow>
          (case parseFloat h (remove1 CHR ''%'' (js_String h v)) of
             None \<Rightarrow> [''Value must be a valid percentage'']
           | Some numVal \<Rightarrow>
               if num_less h numVal (num_of_int h 0) \<or> num_less h (num_of_int h 100) numVal
               then [''Value must be a valid percentage''] else [])
      | DString \<Rightarrow> [])"

definition length_errors :: "Validation \<Rightarrow> string \<Rightarrow> string list" where
  "length_errors vld strValue =
     (case minLength vld of
        None \<Rightarrow> []
      | Some m \<Rightarrow>
          if m \<noteq> 0 \<and> int (length strValue) < m
          then [''Value must be at least '' @ show_int m @ '' characters long''] else [])
     @ (case maxLength vld of
          None \<Rightarrow> []
        | Some m \<Rightarrow>
            if m \<noteq> 0 \<and> int (length strValue) > m
            then [''Value must not exceed '' @ show_int m @ '' characters''] else [])"

definition pattern_errors :: "'n host \<Rightarrow> Validation \<Rightarrow> string \<Rightarrow> string list" where
  "pattern_errors h vld strValue =
     (case v_pattern vld of
        None \<Rightarrow> []
      | Some p \<Rightarrow>
          if p = [] then []
          else (case regExp h p [] strValue of
                  None \<Rightarrow> [''Invalid validation pattern'']
                | Some None \<Rightarrow> [''Value does not match required pattern'']
                | Some (Some m) \<Rightarrow> []))"

definition validateField :: "'n host \<Rightarrow> ExtractionRule \<Rightarrow> 'n jsvalue \<Rightarrow> ValidationResult" where
  "validateField h rule v =
     (case validation rule of
        None \<Rightarrow> \<lparr> isValid = True, v_errors = [] \<rparr>
      | Some vld \<Rightarrow>
          if required vld \<and> v = JStr [] then
            \<lparr> isValid = False, v_errors = [''Field is required but no value was extracted''] \<rparr>
          else if v = JStr [] then \<lparr> isValid = True, v_errors = [] \<rparr>
          else (let errs = type_errors h (dataType vld) v
                             @ length_errors vld (js_String h v)
                             @ pattern_errors h vld (js_String h v)
                in \<lparr> isValid = (length errs = 0), v_errors = errs \<rparr>))"

subsection \<open>\<open>processDocument\<close>\<close>

text \<open>
  The state of the loop over the rules: the result under construction and the two
  counters.  The processing time is not modelled.
\<close>

record 'n loop_state =
  result :: "'n ProcessingResult"
  totalFields :: nat
  successfulExtractions :: nat

definition rule_required :: "ExtractionRule \<Rightarrow> bool" where
  "rule_required rule = (case validation rule of None \<Rightarrow> False | Some vld \<Rightarrow> required vld)"

definition push_error :: "string \<Rightarrow> 'n loop_state \<Rightarrow> 'n loop_state" where
  "push_error msg st = st\<lparr>result := (result st)\<lparr>errors := errors (result st) @ [msg]\<rparr>\<rparr>"

definition push_warning :: "string \<Rightarrow> 'n loop_state \<Rightarrow> 'n loop_state" where
  "push_warning msg st = st\<lparr>result := (result st)\<lparr>warnings := warnings (result st) @ [msg]\<rparr>\<rparr>"

definition store_field :: "string \<Rightarrow> 'n jsvalue \<Rightarrow> 'n loop_state \<Rightarrow> 'n loop_state" where
  "store_field field v st =
     st\<lparr>result := (result st)\<lparr>extractedData := obj_set field v (extractedData (result st))\<rparr>\<rparr>"

text \<open>The messages pushed by the loop.\<close>

definition extraction_error_message :: "ExtractionRule \<Rightarrow> string \<Rightarrow> string" where
  "extraction_error_message rule msg =
     ''Error extracting field '' @ [CHR 0x27] @ fieldName rule @ [CHR 0x27] @ '': '' @ msg"

definition required_message :: "ExtractionRule \<Rightarrow> string" where
  "required_message rule =
     ''Required field '' @ [CHR 0x27] @ fieldName rule @ [CHR 0x27] @ '' could not be extracted''"

definition optional_message :: "ExtractionRule \<Rightarrow> string" where
  "optional_message rule =
     ''Optional field '' @ [CHR 0x27] @ fieldName rule @ [CHR 0x27] @ '' could not be extracted''"

definition validation_message :: "ExtractionRule \<Rightarrow> ValidationResult \<Rightarrow> string" where
  "validation_message rule vr =
     ''Validation failed for '' @ fieldName rule @ '': '' @ join '', '' (v_errors vr)"

definition process_rule ::
  "'n host \<Rightarrow> Template \<Rightarrow> string \<Rightarrow> StructuredData \<Rightarrow> 'n loop_state \<Rightarrow> ExtractionRule
     \<Rightarrow> 'n loop_state" where
  "process_rule h template txt sdata st0 rule =
     (let st = st0\<lparr>totalFields := totalFields st0 + 1\<rparr>
      in case extractField h rule txt sdata of
           Inl msg \<Rightarrow> push_error (extraction_error_message rule msg) st
         | Inr None \<Rightarrow>
             if rule_required rule then push_error (required_message rule) st
             else push_warning (optional_message rule) st
         | Inr (Some extractedValue) \<Rightarrow>
             (let mappedValue = applyHardcodedMappings h (hardcodedMappings template)
                                  (fieldName rule) extractedValue;
                  validationResult = validateField h rule mappedValue
              in if isValid validationResult
                 then (store_field (fieldName rule) mappedValue st)
                        \<lparr>successfulExtractions := successfulExtractions st + 1\<rparr>
                 else store_field (fieldName rule) mappedValue
                        (push_warning (validation_message rule validationResult) st)))"

definition initial_state :: "'n loop_state" where
  "initial_state =
     \<lparr> result = \<lparr> success = False, extractedData = [], pr_confidence = 0,
                   errors = [], warnings = [] \<rparr>,
       totalFields = 0, successfulExtractions = 0 \<rparr>"

definition finish :: "'n loop_state \<Rightarrow> 'n ProcessingResult" where
  "finish st =
     (let conf = (if totalFields st > 0
                  then real (successfulExtractions st) / real (totalFields st) else 0)
      in (result st)\<lparr> pr_confidence := conf,
                       success := (length (errors (result st)) = 0 \<and> conf > 5 / 10) \<rparr>)"

definition run_rules ::
  "'n host \<Rightarrow> Template \<Rightarrow> string \<Rightarrow> StructuredData \<Rightarrow> ExtractionRule list \<Rightarrow> 'n loop_state" where
  "run_rules h template txt sdata rules =
     foldl (process_rule h template txt sdata) initial_state rules"

definition processDocument ::
  "'n host \<Rightarrow> Template \<Rightarrow> string \<Rightarrow> StructuredData \<Rightarrow> 'n ProcessingResult" where
  "processDocument h template txt sdata =
     finish (run_rules h template txt sdata (extractionRules template))"

section \<open>PDF processor (class \<open>PDFProcessor\<close>)\<close>

record PageData =
  pageNumber :: nat
  page_text :: string
  page_confidence :: real

record Metadata =
  totalPages :: nat
  author :: "string option"
  creator :: "string option"

record ExtractedData =
  e_text :: string
  e_pages :: "PageData list"
  e_metadata :: Metadata
  e_confidence :: real

text \<open>
  What the two libraries return for the buffer at hand: \<open>pdfParse\<close> the text, the page
  count and the document information, or it throws; the OCR worker the recognised text
  with the engine's confidence (0 to 100), or it throws.  \<open>worker_ready\<close> says whether
  the processor already holds a worker, \<open>worker_init\<close> whether creating one succeeds.
  (The creation and modification dates of the metadata are not modelled.)
\<close>

record ParsedPdf =
  parsed_text :: string
  numpages :: nat
  info_author :: "string option"
  info_creator :: "string option"

record OcrData =
  ocr_text :: string
  ocr_confidence :: real

record pdf_host =
  pdfParse :: "string \<Rightarrow> string + ParsedPdf"
  worker_ready :: bool
  worker_init :: bool
  recognize :: "string \<Rightarrow> string + OcrData"

fun numbered :: "nat \<Rightarrow> 'a list \<Rightarrow> (nat \<times> 'a) list" where
  "numbered i [] = []"
| "numbered i (x # xs) = (i, x) # numbered (i + 1) xs"

definition extractTextDirectly :: "pdf_host \<Rightarrow> string \<Rightarrow> string + ExtractedData" where
  "extractTextDirectly ph buffer =
     (case pdfParse ph buffer of
        Inl msg \<Rightarrow> Inl (''Direct text extraction failed: '' @ msg)
      | Inr parsed \<Rightarrow>
          Inr \<lparr> e_text = parsed_text parsed,
                e_pages =
                  map (\<lambda>(i, pageText). \<lparr> pageNumber = i + 1, page_text = trim pageText,
                                          page_confidence = 95 / 100 \<rparr>)
                    (filter (\<lambda>(i, pageText). trim pageText \<noteq> [])
                       (numbered 0 (split_on CHR 0x0C (parsed_text parsed)))),
                e_metadata = \<lparr> totalPages = numpages parsed, author = info_author parsed,
                               creator = info_creator parsed \<rparr>,
                e_confidence = 95 / 100 \<rparr>)"

definition extractTextWithOCR :: "pdf_host \<Rightarrow> string \<Rightarrow> string + ExtractedData" where
  "extractTextWithOCR ph buffer =
     (if \<not> worker_ready ph \<and> \<not> worker_init ph then Inl ''OCR initialization failed''
      else (case recognize ph buffer of
              Inl msg \<Rightarrow> Inl (''OCR extraction failed: '' @ msg)
            | Inr ocr \<Rightarrow>
                Inr \<lparr> e_text = ocr_text ocr,
                      e_pages = [\<lparr> pageNumber = 1, page_text = ocr_text ocr,
                                   page_confidence = ocr_confidence ocr / 100 \<rparr>],
                      e_metadata = \<lparr> totalPages = 1, author = None, creator = None \<rparr>,
                      e_confidence = ocr_confidence ocr / 100 \<rparr>))"

definition is_letter :: "char \<Rightarrow> bool" where
  "is_letter c = ((CHR ''a'' \<le> c \<and> c \<le> CHR ''z'') \<or> (CHR ''A'' \<le> c \<and> c \<le> CHR ''Z''))"

text \<open>\<open>/^[a-zA-Z]+$/\<close>.\<close>

definition alphabetic :: "string \<Rightarrow> bool" where
  "alphabetic w = (w \<noteq> [] \<and> list_all is_letter w)"

text \<open>
  With no word longer than two characters the quotient is \<open>0/0\<close>, which is \<open>NaN\<close>, and
  the comparison is false.
\<close>

definition isTextMeaningful :: "string \<Rightarrow> bool" where
  "isTextMeaningful txt =
     (let wrds = filter (\<lambda>word. length word > 2) (split_ws txt);
          meaningfulWords = filter alphabetic wrds
      in if length wrds = 0 then False
         else real (length meaningfulWords) / real (length wrds) > 5 / 10)"

definition processPDF :: "pdf_host \<Rightarrow> string \<Rightarrow> string + ExtractedData" where
  "processPDF ph buffer =
     (case extractTextDirectly ph buffer of
        Inl msg \<Rightarrow> Inl (''PDF processing failed: '' @ msg)
      | Inr directExtraction \<Rightarrow>
          if length (e_text directExtraction) > 100 \<and> isTextMeaningful (e_text directExtraction)
          then Inr (directExtraction\<lparr>e_confidence := 95 / 100\<rparr>)
          else (case extractTextWithOCR ph buffer of
                  Inl msg \<Rightarrow> Inl (''PDF processing failed: '' @ msg)
                | Inr ocr \<Rightarrow> Inr ocr))"

section \<open>Processing orchestrator (class \<open>ProcessingOrchestrator\<close>)\<close>

datatype DocumentStatus = UPLOADED | PROCESSING | COMPLETED | FAILED

datatype JobStatus = RUNNING | JOB_COMPLETED | JOB_FAILED

record ProcessingRequest =
  documentId :: string
  filePath :: string
  fileName :: string
  buffer :: string
  userId :: string

record 'n ProcessingResponse =
  r_success :: bool
  r_documentId :: string
  processingJobId :: string
  r_customerId :: "string option"
  r_templateId :: "string option"
  csvFilePath :: "string option"
  r_extractedData :: "(string \<times> 'n jsvalue) list option"
  r_confidence :: real
  r_errors :: "string list"
  r_warnings :: "string list"

text \<open>
  What the run leaves in the database and on disk: the job's status and error message,
  the document's status, stored confidence score, customer and template, the CSV files
  written (path and the data they were written from) and the CSV output records.  (The
  detection and extraction logs are not modelled, nor the rendering of the three CSV
  columns.)
\<close>

record 'n world =
  w_job_status :: "JobStatus option"
  w_job_error :: "string option"
  w_doc_status :: DocumentStatus
  w_doc_confidence :: "real option"
  w_doc_customer :: "string option"
  w_doc_template :: "string option"
  w_csv_files :: "(string \<times> (string \<times> 'n jsvalue) list) list"
  w_csv_outputs :: "string list"

text \<open>
  The calls that reach outside the process, any of which may throw: \<open>fails io e\<close> is
  the message of the exception, \<open>None\<close> when the call succeeds.
\<close>

datatype effect =
  JobCreate | Initialize | DocumentUpdate | CsvWrite | FileStat | CsvOutputCreate
  | JobUpdate | JobFailUpdate | DocumentFailUpdate

text \<open>
  The surroundings of one run.  The four analysis functions of the PDF processor
  (\<open>extractTables\<close>, \<open>detectKeyValuePairs\<close>, \<open>extractDates\<close>, \<open>extractNumbers\<close>) are
  built on the host's regular expressions and dates and only produce the payload of the
  CSV; they are parameters: \<open>analyse\<close> is the object handed to the template engine,
  \<open>keyValuePairs\<close> the detected pairs, \<open>dates_iso\<close> the detected dates as ISO strings,
  \<open>currency_amounts\<close> the detected currency amounts as printed.  \<open>now_iso\<close> is the
  clock, \<open>csv_path\<close> the time-stamped path chosen for a file name, \<open>job_id\<close> the id
  of the created job.
\<close>

record 'n surroundings =
  fails :: "effect \<Rightarrow> string option"
  js :: "'n host"
  pdf :: pdf_host
  customers :: "Customer list"
  patterns :: "string \<rightharpoonup> DetectionPattern list"
  templates :: "Template list"
  analyse :: "string \<Rightarrow> StructuredData"
  keyValuePairs :: "string \<Rightarrow> (string \<times> string) list"
  dates_iso :: "string \<Rightarrow> string list"
  currency_amounts :: "string \<Rightarrow> string list"
  now_iso :: string
  csv_path :: "string \<Rightarrow> string"
  job_id :: string

record 'n run_state =
  resp :: "'n ProcessingResponse"
  wld :: "'n world"

text \<open>A step of the \<open>try\<close> block either completes or throws, in a state.\<close>

datatype 'n outcome = Done "'n run_state" | Threw string "'n run_state"

definition and_then :: "'n outcome \<Rightarrow> ('n run_state \<Rightarrow> 'n outcome) \<Rightarrow> 'n outcome" where
  "and_then r f = (case r of Done st \<Rightarrow> f st | Threw msg st \<Rightarrow> Threw msg st)"

definition attempt ::
  "'n surroundings \<Rightarrow> effect \<Rightarrow> ('n world \<Rightarrow> 'n world) \<Rightarrow> 'n run_state \<Rightarrow> 'n outcome" where
  "attempt sur e f st =
     (case fails sur e of
        Some msg \<Rightarrow> Threw msg st
      | None \<Rightarrow> Done (st\<lparr>wld := f (wld st)\<rparr>))"

definition generateCSV ::
  "'n surroundings \<Rightarrow> (string \<times> 'n jsvalue) list \<Rightarrow> ProcessingRequest \<Rightarrow> 'n run_state
     \<Rightarrow> 'n outcome" where
  "generateCSV sur dat request st =
     (case fails sur CsvWrite of
        Some msg \<Rightarrow> Threw (''CSV generation failed: '' @ msg) st
      | None \<Rightarrow>
          Done (st\<lparr>wld := (wld st)\<lparr>w_csv_files :=
                   w_csv_files (wld st) @ [(csv_path sur (fileName request), dat)]\<rparr>\<rparr>))"

fun obj_assign :: "(string \<times> 'v) list \<Rightarrow> (string \<times> 'v) list \<Rightarrow> (string \<times> 'v) list" where
  "obj_assign obj [] = obj"
| "obj_assign obj ((k, v) # kvs) = obj_assign (obj_set k v obj) kvs"

definition basicData ::
  "'n surroundings \<Rightarrow> ExtractedData \<Rightarrow> ProcessingRequest \<Rightarrow> string option
     \<Rightarrow> (string \<times> 'n jsvalue) list" where
  "basicData sur extracted request cid =
     (let base = obj_assign
                   [(''document_name'', JStr (fileName request)),
                    (''extraction_date'', JStr (now_iso sur)),
                    (''total_pages'',
                       JNum (num_of_int (js sur) (int (totalPages (e_metadata extracted))))),
                    (''customer_id'',
                       JStr (case cid of
                               None \<Rightarrow> ''unknown''
                             | Some c \<Rightarrow> if c = [] then ''unknown'' else c))]
                   (map (\<lambda>(k, v). (k, JStr v)) (keyValuePairs sur (e_text extracted)));
          with_dates = (if length (dates_iso sur (e_text extracted)) > 0
                        then obj_set ''detected_dates''
                               (JStr (join ''; '' (dates_iso sur (e_text extracted)))) base
                        else base)
      in if length (currency_amounts sur (e_text extracted)) > 0
         then obj_set ''currency_amounts''
                (JStr (join ''; '' (currency_amounts sur (e_text extracted)))) with_dates
         else with_dates)"

text \<open>
  \<open>createBasicCSV\<close> followed by the assignments of the calling branch to the response.
\<close>

definition basic_csv ::
  "'n surroundings \<Rightarrow> ExtractedData \<Rightarrow> ProcessingRequest \<Rightarrow> string option \<Rightarrow> real
     \<Rightarrow> 'n run_state \<Rightarrow> 'n outcome" where
  "basic_csv sur extracted request cid conf st =
     and_then (generateCSV sur (basicData sur extracted request cid) request st)
       (\<lambda>st1. Done (st1\<lparr>resp := (resp st1)
                  \<lparr> csvFilePath := Some (csv_path sur (fileName request)),
                    r_extractedData := Some (basicData sur extracted request cid),
                    r_confidence := conf,
                    r_success := True \<rparr>\<rparr>))"

definition push_response_warning :: "string \<Rightarrow> 'n run_state \<Rightarrow> 'n run_state" where
  "push_response_warning msg st =
     st\<lparr>resp := (resp st)\<lparr>r_warnings := r_warnings (resp st) @ [msg]\<rparr>\<rparr>"

definition unknown_customer_branch ::
  "'n surroundings \<Rightarrow> ExtractedData \<Rightarrow> ProcessingRequest \<Rightarrow> 'n run_state \<Rightarrow> 'n outcome" where
  "unknown_customer_branch sur extracted request st =
     and_then
       (attempt sur DocumentUpdate
          (\<lambda>w. w\<lparr>w_doc_status := COMPLETED, w_doc_confidence := Some 0\<rparr>)
          (push_response_warning ''Could not automatically detect customer'' st))
       (basic_csv sur extracted request None (3 / 10))"

definition template_branch ::
  "'n surroundings \<Rightarrow> ExtractedData \<Rightarrow> ProcessingRequest \<Rightarrow> CustomerDetectionResult
     \<Rightarrow> Template \<Rightarrow> 'n run_state \<Rightarrow> 'n outcome" where
  "template_branch sur extracted request detection template st =
     (let processingResult =
            processDocument (js sur) template (e_text extracted)
              (analyse sur (e_text extracted))
      in and_then (generateCSV sur (extractedData processingResult) request st)
           (\<lambda>st1.
              let path = csv_path sur (fileName request);
                  st2 = st1\<lparr>resp := (resp st1)
                          \<lparr> r_success := success processingResult,
                            r_customerId := customerId detection,
                            r_templateId := Some (t_id template),
                            csvFilePath := Some path,
                            r_extractedData := Some (extractedData processingResult),
                            r_confidence :=
                              (confidence detection + pr_confidence processingResult) / 2,
                            r_errors := errors processingResult,
                            r_warnings := r_warnings (resp st1) @ warnings processingResult \<rparr>\<rparr>
              in and_then
                   (attempt sur DocumentUpdate
                      (\<lambda>w. w\<lparr> w_doc_customer := customerId detection,
                                w_doc_template := Some (t_id template),
                                w_doc_status := (if r_success (resp st2) then COMPLETED
                                                 else FAILED),
                                w_doc_confidence := Some (r_confidence (resp st2)) \<rparr>)
                      st2)
                   (\<lambda>st3.
                      if path \<noteq> [] then
                        and_then (attempt sur FileStat (\<lambda>w. w) st3)
                          (attempt sur CsvOutputCreate
                             (\<lambda>w. w\<lparr>w_csv_outputs := w_csv_outputs w @ [path]\<rparr>))
                      else Done st3)))"

definition known_customer_branch ::
  "'n surroundings \<Rightarrow> ExtractedData \<Rightarrow> ProcessingRequest \<Rightarrow> CustomerDetectionResult
     \<Rightarrow> 'n run_state \<Rightarrow> 'n outcome" where
  "known_customer_branch sur extracted request detection st =
     (case selectTemplate (js sur) (templates sur) (the (customerId detection))
             (e_text extracted) of
        None \<Rightarrow>
          basic_csv sur extracted request (customerId detection)
            (confidence detection * (5 / 10))
            (push_response_warning ''No template found for detected customer'' st)
      | Some template \<Rightarrow> template_branch sur extracted request detection template st)"

text \<open>The body of the \<open>try\<close> block.\<close>

definition try_block :: "'n surroundings \<Rightarrow> ProcessingRequest \<Rightarrow> 'n run_state \<Rightarrow> 'n outcome" where
  "try_block sur request st =
     and_then (attempt sur Initialize (\<lambda>w. w) st)
       (\<lambda>st1.
          case processPDF (pdf sur) (buffer request) of
            Inl msg \<Rightarrow> Threw msg st1
          | Inr extracted \<Rightarrow>
              if length (e_text extracted) < 10
              then Threw ''Insufficient text extracted from PDF'' st1
              else
                (let detection = detectCustomer (regExp (js sur)) (customers sur) (patterns sur)
                                   (e_text extracted) (Some (fileName request))
                 in and_then
                      (if customerId detection = None \<or> customerId detection = Some []
                       then unknown_customer_branch sur extracted request st1
                       else known_customer_branch sur extracted request detection st1)
                      (\<lambda>st2.
                         attempt sur JobUpdate
                           (\<lambda>w. w\<lparr>w_job_status :=
                                      Some (if r_success (resp st2) then JOB_COMPLETED
                                            else JOB_FAILED)\<rparr>)
                           st2)))"

text \<open>
  \<open>processDocument\<close> of the orchestrator, started in world \<open>w0\<close>.  The result is \<open>Inl\<close>
  when the returned promise rejects: the job cannot be created, or an update inside the
  \<open>catch\<close> block throws.
\<close>

definition orchestrate ::
  "'n surroundings \<Rightarrow> ProcessingRequest \<Rightarrow> 'n world
     \<Rightarrow> string + ('n ProcessingResponse \<times> 'n world)" where
  "orchestrate sur request w0 =
     (case fails sur JobCreate of
        Some msg \<Rightarrow> Inl msg
      | None \<Rightarrow>
          (let st0 = \<lparr> resp = \<lparr> r_success = False, r_documentId = documentId request,
                                processingJobId = job_id sur, r_customerId = None,
                                r_templateId = None, csvFilePath = None,
                                r_extractedData = None, r_confidence = 0,
                                r_errors = [], r_warnings = [] \<rparr>,
                       wld = w0\<lparr>w_job_status := Some RUNNING\<rparr> \<rparr>
           in case try_block sur request st0 of
                Done st \<Rightarrow> Inr (resp st, wld st)
              | Threw msg st \<Rightarrow>
                  (let st1 = st\<lparr>resp := (resp st)\<lparr>r_errors := r_errors (resp st) @ [msg]\<rparr>\<rparr>
                   in case and_then
                             (attempt sur JobFailUpdate
                                (\<lambda>w. w\<lparr>w_job_status := Some JOB_FAILED,
                                         w_job_error := Some msg\<rparr>) st1)
                             (attempt sur DocumentFailUpdate (\<lambda>w. w\<lparr>w_doc_status := FAILED\<rparr>)) of
                        Done st2 \<Rightarrow> Inr (resp st2, wld st2)
                      | Threw msg2 st2 \<Rightarrow> Inl msg2)))"

section \<open>The keyword scan as the specification words it\<close>




section \<open>Example inputs\<close>

text \<open>
  Concrete inputs on which the model is evaluated.  \<open>stub_host\<close> is a host with integer
  numbers whose regular-expression engine never finds a match and whose \<open>parseFloat\<close>
  and \<open>Date.parse\<close> accept nothing; the examples use keyword rules and string
  validation, which do not call it.
\<close>

definition stub_host :: "int host" where
  "stub_host =
     \<lparr> regExp = (\<lambda>p f s. Some None),
       regExp_replace = (\<lambda>p s r. Some s),
       js_eval = (\<lambda>e. Inl ''not supported''),
       parseFloat = (\<lambda>s. None),
       num_to_string = show_int,
       date_valid = (\<lambda>s. False),
       num_of_int = (\<lambda>i. i),
       num_add = (\<lambda>a b. a + b),
       num_sub = (\<lambda>a b. a - b),
       num_mul = (\<lambda>a b. a * b),
       num_div = (\<lambda>a b. a div b),
       num_less = (\<lambda>a b. a < b) \<rparr>"

definition keyword_rule ::
  "string \<Rightarrow> string list \<Rightarrow> Direction \<Rightarrow> Validation option \<Rightarrow> ExtractionRule" where
  "keyword_rule field kws dir vld =
     \<lparr> fieldName = field, extractionType = TKeyword, r_pattern = None, r_position = None,
       tableConfig = None,
       keywordConfig = Some \<lparr> cfg_keywords = kws, searchRadius = 0, direction = dir \<rparr>,
       calculationConfig = None, validation = vld \<rparr>"

definition invoice_text :: string where
  "invoice_text =
     ''Invoice #INV-1001'' @ [CHR 0x0A] @ ''Date: 2024-01-05'' @ [CHR 0x0A] @ ''Total: $250.00''"

definition no_data :: StructuredData where
  "no_data = \<lparr> tables = None, rendered = [] \<rparr>"

definition acme :: Customer where
  "acme = \<lparr> c_id = ''c1'', c_name = ''Acme Corporation'' \<rparr>"

definition acme_patterns :: "string \<rightharpoonup> DetectionPattern list" where
  "acme_patterns =
     [''c1'' \<mapsto> [\<lparr> ptype = PText, dp_pattern = ''ACME Corp'', weight = 2, caseSensitive = False \<rparr>,
                \<lparr> ptype = PText, dp_pattern = ''AC-77'', weight = 1, caseSensitive = False \<rparr>]]"

text \<open>
  A template with a rule that extracts, a required rule whose keyword is absent from
  \<open>invoice_text\<close>, and a rule whose value is too long for its validation.
\<close>

definition invoice_template :: Template where
  "invoice_template =
     \<lparr> t_id = ''t1'', t_customerId = ''c1'', t_name = ''Invoice'', t_isActive = True,
       extractionRules =
         [keyword_rule ''invoice_number'' [''Invoice #''] SameLine None,
          keyword_rule ''po_number'' [''PO:''] SameLine
            (Some \<lparr> dataType = DString, required = True, minLength = None,
                    maxLength = None, v_pattern = None \<rparr>),
          keyword_rule ''total_amount'' [''Total:''] SameLine
            (Some \<lparr> dataType = DString, required = False, minLength = None,
                    maxLength = Some 3, v_pattern = None \<rparr>)],
       hardcodedMappings = [] \<rparr>"

text \<open>
  Stored mappings for one field, the one of lower priority stored first, and an inactive
  one of the highest priority.
\<close>

definition freight_low :: HardcodedMapping where
  "freight_low = \<lparr> m_fieldName = ''description'', sourcePattern = ''freight'',
                   targetValue = ''FREIGHT'', priority = 1, m_isActive = True \<rparr>"

definition freight_high :: HardcodedMapping where
  "freight_high = \<lparr> m_fieldName = ''description'', sourcePattern = ''frei*'',
                    targetValue = ''SHIPPING_COST'', priority = 5, m_isActive = True \<rparr>"

definition freight_inactive :: HardcodedMapping where
  "freight_inactive = \<lparr> m_fieldName = ''description'', sourcePattern = ''charge'',
                        targetValue = ''CHARGE'', priority = 9, m_isActive = False \<rparr>"

definition question_mark_mapping :: HardcodedMapping where
  "question_mark_mapping = \<lparr> m_fieldName = ''description'', sourcePattern = ''fre?ght'',
                             targetValue = ''SHIPPING_COST'', priority = 5, m_isActive = True \<rparr>"

definition stored_templates :: "Template list" where
  "stored_templates =
     [invoice_template\<lparr>hardcodedMappings := [freight_low, freight_inactive, freight_high]\<rparr>,
      \<lparr> t_id = ''t2'', t_customerId = ''c1'', t_name = ''Receipt'', t_isActive = True,
        extractionRules = [], hardcodedMappings = [] \<rparr>,
      \<lparr> t_id = ''t3'', t_customerId = ''c1'', t_name = ''Statement'', t_isActive = False,
        extractionRules = [], hardcodedMappings = [] \<rparr>]"

text \<open>PDF libraries that return the given text, and a recogniser that always answers.\<close>

definition sample_pdf :: "string \<Rightarrow> pdf_host" where
  "sample_pdf t =
     \<lparr> pdfParse = (\<lambda>b. Inr \<lparr> parsed_text = t, numpages = 1, info_author = None,
                            info_creator = None \<rparr>),
       worker_ready = True,
       worker_init = True,
       recognize = (\<lambda>b. Inr \<lparr> ocr_text = ''scanned invoice total'', ocr_confidence = 87 \<rparr>) \<rparr>"

definition worded_text :: string where
  "worded_text = concat (replicate 12 ''invoice total '')"


text \<open>
  Surroundings in which every outside call succeeds except those listed, with one
  customer, no patterns and no templates; a request; and the world before the run.
\<close>

definition surroundings_failing :: "effect list \<Rightarrow> int surroundings" where
  "surroundings_failing es =
     \<lparr> fails = (\<lambda>e. if e \<in> set es then Some ''ENOSPC'' else None),
       js = stub_host,
       pdf = sample_pdf worded_text,
       customers = [acme],
       patterns = Map.empty,
       templates = [],
       analyse = (\<lambda>t. no_data),
       keyValuePairs = (\<lambda>t. []),
       dates_iso = (\<lambda>t. []),
       currency_amounts = (\<lambda>t. []),
       now_iso = ''2024-01-05T00:00:00.000Z'',
       csv_path = (\<lambda>f. ''uploads/csv/'' @ f @ ''.csv''),
       job_id = ''job1'' \<rparr>"

definition scan_request :: ProcessingRequest where
  "scan_request = \<lparr> documentId = ''doc1'', filePath = ''uploads/scan.pdf'',
                     fileName = ''scan.pdf'', buffer = ''%PDF'', userId = ''u1'' \<rparr>"

definition world_before :: "int world" where
  "world_before = \<lparr> w_job_status = None, w_job_error = None, w_doc_status = PROCESSING,
                     w_doc_confidence = None, w_doc_customer = None, w_doc_template = None,
                     w_csv_files = [], w_csv_outputs = [] \<rparr>"

section \<open>Verified properties\<close>

subsection \<open>Strings\<close>


subsection \<open>Sorting and the detector's candidates\<close>

lemma filter_Cons_find: "filter P xs = b # zs \<Longrightarrow> find P xs = Some b"
  by (induction xs) (auto split: if_splits)

lemma sort_desc_head:
  assumes "sort_desc key xs = b # rest"
  shows "b \<in> set xs"
    and "\<forall>x\<in>set xs. key x \<le> key b"
    and "find (\<lambda>y. key y = key b) xs = Some b"
proof -
  let ?f = "\<lambda>x. - key x"
  have eq: "sort_key ?f xs = b # rest" using assms by (simp add: sort_desc_def)
  have "set (sort_key ?f xs) = set xs" by simp
  with eq have sets: "set xs = insert b (set rest)" by simp
  then show "b \<in> set xs" by simp
  have "sorted (map ?f (sort_key ?f xs))" by (rule sorted_sort_key)
  with eq have "\<forall>y\<in>set rest. ?f b \<le> ?f y" by simp
  with sets show "\<forall>x\<in>set xs. key x \<le> key b" by auto
  have "filter (\<lambda>y. ?f y = ?f b) (sort_key ?f xs) = filter (\<lambda>y. ?f y = ?f b) xs"
    by (rule sort_key_stable)
  with eq have "filter (\<lambda>y. ?f y = ?f b) xs = b # filter (\<lambda>y. ?f y = ?f b) rest" by simp
  then have "filter (\<lambda>y. key y = key b) xs = b # filter (\<lambda>y. key y = key b) rest" by simp
  then show "find (\<lambda>y. key y = key b) xs = Some b" by (rule filter_Cons_find)
qed

lemma sort_desc_Nil: "sort_desc key xs = [] \<longleftrightarrow> xs = []"
  unfolding sort_desc_def by (metis length_0_conv length_sort)

lemma sum_list_filter_bounds:
  fixes f :: "'a \<Rightarrow> real"
  assumes "\<forall>x\<in>set xs. 0 \<le> f x"
  shows "0 \<le> sum_list (map f (filter P xs)) \<and> sum_list (map f (filter P xs)) \<le> sum_list (map f xs)"
  using assms by (induction xs) auto

lemma weighted_result_bounds:
  assumes "0 \<le> mw" and "mw \<le> tw"
  shows "0 \<le> confidence (weighted_result c th tw mw ms m)
         \<and> confidence (weighted_result c th tw mw ms m) \<le> 1"
  using assms by (simp add: weighted_result_def Let_def divide_le_eq)

lemma checkExactMatch_bounds:
  assumes "\<forall>p\<in>set ps. 0 \<le> weight p"
  shows "0 \<le> confidence (checkExactMatch txt c ps) \<and> confidence (checkExactMatch txt c ps) \<le> 1"
proof -
  let ?tp = "filter (\<lambda>p. ptype p = PText) ps"
  have nn: "\<forall>p\<in>set ?tp. 0 \<le> weight p" using assms by simp
  show ?thesis
    unfolding checkExactMatch_def Let_def
    using sum_list_filter_bounds [OF nn, of "pattern_found txt"]
    by (intro weighted_result_bounds) auto
qed

lemma checkPatternMatch_bounds:
  assumes "\<forall>p\<in>set ps. 0 \<le> weight p"
  shows "0 \<le> confidence (checkPatternMatch re txt c ps)
         \<and> confidence (checkPatternMatch re txt c ps) \<le> 1"
proof -
  let ?rp = "filter (\<lambda>p. ptype p = PRegex) ps"
  let ?hp = "filter (\<lambda>p. ptype p = PHeader \<or> ptype p = PFooter) ps"
  have nr: "\<forall>p\<in>set ?rp. 0 \<le> weight p" and nh: "\<forall>p\<in>set ?hp. 0 \<le> weight p"
    using assms by simp_all
  show ?thesis
    unfolding checkPatternMatch_def Let_def
    apply (rule weighted_result_bounds)
    using sum_list_filter_bounds [OF nr] sum_list_filter_bounds [OF nh]
     apply (simp add: add_nonneg_nonneg)
    using sum_list_filter_bounds [OF nr] sum_list_filter_bounds [OF nh]
    apply (simp add: add_mono)
    done
qed

lemma checkFuzzyMatch_bounds:
  "0 \<le> confidence (checkFuzzyMatch txt c) \<and> confidence (checkFuzzyMatch txt c) \<le> 1"
proof -
  have "real (length (fuzzy_hits txt c)) \<le> real (length (fuzzy_words c))"
    by (simp add: fuzzy_hits_def)
  then have "length (fuzzy_words c) > 0 \<Longrightarrow>
      real (length (fuzzy_hits txt c)) / real (length (fuzzy_words c)) \<le> 1"
    by (simp add: divide_le_eq)
  then show ?thesis
    by (auto simp: checkFuzzyMatch_def Let_def)
qed

lemma checkFilenameMatch_bounds:
  "0 \<le> confidence (checkFilenameMatch fn c ps) \<and> confidence (checkFilenameMatch fn c ps) \<le> 1"
  by (simp add: checkFilenameMatch_def Let_def min_def)

lemma candidates_bounds:
  assumes "\<forall>cid ps. pats cid = Some ps \<longrightarrow> (\<forall>p\<in>set ps. 0 \<le> weight p)"
    and "r \<in> set (candidates re pats txt fn c)"
  shows "0 \<le> confidence r \<and> confidence r \<le> 1"
proof -
  define ps where "ps = (case pats (c_id c) of None \<Rightarrow> [] | Some ps \<Rightarrow> ps)"
  have nn: "\<forall>p\<in>set ps. 0 \<le> weight p"
  proof (cases "pats (c_id c)")
    case None
    then show ?thesis by (simp add: ps_def)
  next
    case (Some qs)
    with assms(1) have "\<forall>p\<in>set qs. 0 \<le> weight p" by blast
    with Some show ?thesis by (simp add: ps_def)
  qed
  from assms(2) have "r = checkExactMatch txt c ps \<or> r = checkPatternMatch re txt c ps
      \<or> r = checkFuzzyMatch txt c \<or> (\<exists>f. r = checkFilenameMatch f c ps)"
    by (auto simp: candidates_def Let_def ps_def split: option.splits if_splits)
  then show ?thesis
    using checkExactMatch_bounds [OF nn] checkPatternMatch_bounds [OF nn]
      checkFuzzyMatch_bounds checkFilenameMatch_bounds
    by blast
qed

lemma detectCustomer_cases:
  "(detection_pool re cs pats txt fn = [] \<and> detectCustomer re cs pats txt fn = no_match)
   \<or> (detectCustomer re cs pats txt fn \<in> set (detection_pool re cs pats txt fn)
       \<and> (\<forall>r\<in>set (detection_pool re cs pats txt fn).
             confidence r \<le> confidence (detectCustomer re cs pats txt fn)))"
proof (cases "sort_desc confidence (detection_pool re cs pats txt fn)")
  case Nil
  then have "detection_pool re cs pats txt fn = []" by (simp add: sort_desc_Nil)
  with Nil show ?thesis by (simp add: detectCustomer_def)
next
  case (Cons b rest)
  from sort_desc_head(1,2) [OF Cons] Cons show ?thesis
    by (simp add: detectCustomer_def)
qed

lemma detectCustomer_bounds:
  assumes "\<forall>cid ps. pats cid = Some ps \<longrightarrow> (\<forall>p\<in>set ps. 0 \<le> weight p)"
  shows "0 \<le> confidence (detectCustomer re cs pats txt fn)
         \<and> confidence (detectCustomer re cs pats txt fn) \<le> 1"
proof -
  have pool: "\<forall>r\<in>set (detection_pool re cs pats txt fn). 0 \<le> confidence r \<and> confidence r \<le> 1"
    using candidates_bounds [OF assms] by (auto simp: detection_pool_def)
  from detectCustomer_cases [of re cs pats "txt" fn] show ?thesis
  proof
    assume "detection_pool re cs pats txt fn = [] \<and> detectCustomer re cs pats txt fn = no_match"
    then show ?thesis by (simp add: no_match_def)
  next
    assume "detectCustomer re cs pats txt fn \<in> set (detection_pool re cs pats txt fn)
       \<and> (\<forall>r\<in>set (detection_pool re cs pats txt fn).
             confidence r \<le> confidence (detectCustomer re cs pats txt fn))"
    with pool show ?thesis by blast
  qed
qed

subsection \<open>Fuzzy matching\<close>


subsection \<open>The rule loop of the template engine\<close>

lemma obj_get_obj_set: "obj_get (obj_set k v kvs) k' = (if k' = k then Some v else obj_get kvs k')"
  by (induction kvs) (auto simp: obj_get_def)

lemma process_rule_throw:
  assumes "extractField h rule doc sd = Inl msg"
  shows "process_rule h t doc sd st rule =
           push_error (extraction_error_message rule msg) (st\<lparr>totalFields := totalFields st + 1\<rparr>)"
  using assms by (simp add: process_rule_def Let_def)

lemma process_rule_null:
  assumes "extractField h rule doc sd = Inr None"
  shows "process_rule h t doc sd st rule =
           (if rule_required rule
            then push_error (required_message rule) (st\<lparr>totalFields := totalFields st + 1\<rparr>)
            else push_warning (optional_message rule) (st\<lparr>totalFields := totalFields st + 1\<rparr>))"
  using assms by (simp add: process_rule_def Let_def)

lemma process_rule_value:
  assumes "extractField h rule doc sd = Inr (Some v)"
  shows "process_rule h t doc sd st rule =
           (let mappedValue = applyHardcodedMappings h (hardcodedMappings t) (fieldName rule) v;
                vr = validateField h rule mappedValue;
                st1 = st\<lparr>totalFields := totalFields st + 1\<rparr>
            in if isValid vr
               then (store_field (fieldName rule) mappedValue st1)
                      \<lparr>successfulExtractions := successfulExtractions st1 + 1\<rparr>
               else store_field (fieldName rule) mappedValue
                      (push_warning (validation_message rule vr) st1))"
  using assms by (simp add: process_rule_def Let_def)

lemma push_error_simps:
  "errors (result (push_error m st)) = errors (result st) @ [m]"
  "warnings (result (push_error m st)) = warnings (result st)"
  "extractedData (result (push_error m st)) = extractedData (result st)"
  "totalFields (push_error m st) = totalFields st"
  "successfulExtractions (push_error m st) = successfulExtractions st"
  by (simp_all add: push_error_def)

lemma push_warning_simps:
  "errors (result (push_warning m st)) = errors (result st)"
  "warnings (result (push_warning m st)) = warnings (result st) @ [m]"
  "extractedData (result (push_warning m st)) = extractedData (result st)"
  "totalFields (push_warning m st) = totalFields st"
  "successfulExtractions (push_warning m st) = successfulExtractions st"
  by (simp_all add: push_warning_def)

lemma store_field_simps:
  "errors (result (store_field k v st)) = errors (result st)"
  "warnings (result (store_field k v st)) = warnings (result st)"
  "extractedData (result (store_field k v st)) = obj_set k v (extractedData (result st))"
  "totalFields (store_field k v st) = totalFields st"
  "successfulExtractions (store_field k v st) = successfulExtractions st"
  by (simp_all add: store_field_def)

lemmas state_simps = push_error_simps push_warning_simps store_field_simps

lemma process_rule_counters:
  "totalFields (process_rule h t doc sd st rule) = totalFields st + 1
   \<and> successfulExtractions st \<le> successfulExtractions (process_rule h t doc sd st rule)
   \<and> successfulExtractions (process_rule h t doc sd st rule) \<le> successfulExtractions st + 1"
proof (cases "extractField h rule doc sd")
  case (Inl msg)
  then show ?thesis by (simp add: process_rule_throw state_simps)
next
  case (Inr r)
  show ?thesis
  proof (cases r)
    case None
    with Inr show ?thesis by (simp add: process_rule_null state_simps)
  next
    case (Some v)
    with Inr show ?thesis by (simp add: process_rule_value Let_def state_simps)
  qed
qed

lemma process_rule_grows:
  "set (errors (result st)) \<subseteq> set (errors (result (process_rule h t doc sd st rule)))
   \<and> set (warnings (result st)) \<subseteq> set (warnings (result (process_rule h t doc sd st rule)))
   \<and> (obj_get (extractedData (result st)) k \<noteq> None
        \<longrightarrow> obj_get (extractedData (result (process_rule h t doc sd st rule))) k \<noteq> None)"
proof (cases "extractField h rule doc sd")
  case (Inl msg)
  then show ?thesis by (auto simp add: process_rule_throw state_simps)
next
  case (Inr r)
  show ?thesis
  proof (cases r)
    case None
    with Inr show ?thesis by (auto simp add: process_rule_null state_simps)
  next
    case (Some v)
    with Inr show ?thesis by (auto simp add: process_rule_value Let_def state_simps obj_get_obj_set)
  qed
qed

lemma process_rule_other_field:
  assumes "fieldName rule \<noteq> k"
  shows "obj_get (extractedData (result (process_rule h t doc sd st rule))) k
           = obj_get (extractedData (result st)) k"
proof (cases "extractField h rule doc sd")
  case (Inl msg)
  then show ?thesis by (simp add: process_rule_throw state_simps)
next
  case (Inr r)
  show ?thesis
  proof (cases r)
    case None
    with Inr show ?thesis by (simp add: process_rule_null state_simps)
  next
    case (Some v)
    with Inr assms show ?thesis
      by (auto simp add: process_rule_value Let_def state_simps obj_get_obj_set)
  qed
qed

lemma foldl_counters:
  "totalFields (foldl (process_rule h t doc sd) st rules) = totalFields st + length rules
   \<and> successfulExtractions (foldl (process_rule h t doc sd) st rules)
        \<le> successfulExtractions st + length rules"
proof (induction rules arbitrary: st)
  case Nil
  then show ?case by simp
next
  case (Cons r rs)
  from Cons.IH [of "process_rule h t doc sd st r"] process_rule_counters [of h t doc sd st r]
  show ?case by simp
qed

lemma foldl_grows:
  "set (errors (result st)) \<subseteq> set (errors (result (foldl (process_rule h t doc sd) st rules)))
   \<and> set (warnings (result st)) \<subseteq> set (warnings (result (foldl (process_rule h t doc sd) st rules)))
   \<and> (obj_get (extractedData (result st)) k \<noteq> None
        \<longrightarrow> obj_get (extractedData (result (foldl (process_rule h t doc sd) st rules))) k \<noteq> None)"
proof (induction rules arbitrary: st)
  case Nil
  then show ?case by simp
next
  case (Cons r rs)
  from Cons.IH [of "process_rule h t doc sd st r"] process_rule_grows [of st h t doc sd r k]
  show ?case by auto
qed

lemma foldl_other_fields:
  assumes "\<forall>r\<in>set rules. fieldName r \<noteq> k"
  shows "obj_get (extractedData (result (foldl (process_rule h t doc sd) st rules))) k
           = obj_get (extractedData (result st)) k"
  using assms
proof (induction rules arbitrary: st)
  case Nil
  then show ?case by simp
next
  case (Cons r rs)
  then show ?case by (simp add: process_rule_other_field)
qed

lemma finish_simps:
  "errors (finish st) = errors (result st)"
  "warnings (finish st) = warnings (result st)"
  "extractedData (finish st) = extractedData (result st)"
  "pr_confidence (finish st) =
     (if totalFields st > 0 then real (successfulExtractions st) / real (totalFields st) else 0)"
  "success (finish st) = (errors (result st) = [] \<and> pr_confidence (finish st) > 5 / 10)"
  by (simp_all add: finish_def Let_def)

lemma processDocument_confidence_bounds:
  "0 \<le> pr_confidence (processDocument h t doc sd) \<and> pr_confidence (processDocument h t doc sd) \<le> 1"
proof -
  let ?st = "run_rules h t doc sd (extractionRules t)"
  have "successfulExtractions ?st \<le> totalFields ?st"
    using foldl_counters [of h t doc sd initial_state "extractionRules t"]
    by (simp add: run_rules_def initial_state_def)
  then have "real (successfulExtractions ?st) \<le> real (totalFields ?st)" by simp
  then show ?thesis
    by (simp add: processDocument_def finish_simps divide_le_eq)
qed

subsection \<open>Confidence values\<close>

text \<open>
  Claim C5.  When every configured pattern weight is at least 0, the confidence of the
  result of \<open>detectCustomer\<close> lies in the closed interval from 0 to 1; the confidence
  of the result of the template engine's \<open>processDocument\<close> always does.
\<close>

theorem confidence_in_unit_interval:
  assumes "\<forall>cid ps. pats cid = Some ps \<longrightarrow> (\<forall>p\<in>set ps. 0 \<le> weight p)"
  shows "0 \<le> confidence (detectCustomer re cs pats doc fn)
         \<and> confidence (detectCustomer re cs pats doc fn) \<le> 1
         \<and> 0 \<le> pr_confidence (processDocument h t doc' sd)
         \<and> pr_confidence (processDocument h t doc' sd) \<le> 1"
  using detectCustomer_bounds [OF assms] processDocument_confidence_bounds by blast

theorem confidence_in_unit_interval_witness:
  "confidence (detectCustomer (regExp stub_host) [acme] acme_patterns
                 ''Invoice from ACME Corp'' None) = 2 / 3
   \<and> 0 \<le> confidence (detectCustomer (regExp stub_host) [acme] acme_patterns
                 ''Invoice from ACME Corp'' None)
   \<and> confidence (detectCustomer (regExp stub_host) [acme] acme_patterns
                 ''Invoice from ACME Corp'' None) \<le> 1
   \<and> pr_confidence (processDocument stub_host invoice_template invoice_text no_data) = 1 / 3
   \<and> 0 \<le> pr_confidence (processDocument stub_host invoice_template invoice_text no_data)
   \<and> pr_confidence (processDocument stub_host invoice_template invoice_text no_data) \<le> 1"
proof -
  have weights: "\<forall>cid ps. acme_patterns cid = Some ps \<longrightarrow> (\<forall>p\<in>set ps. 0 \<le> weight p)"
    by (auto simp: acme_patterns_def split: if_splits)
  have v1: "confidence (detectCustomer (regExp stub_host) [acme] acme_patterns
                 ''Invoice from ACME Corp'' None) = 2 / 3"
    by code_simp
  have v2: "pr_confidence (processDocument stub_host invoice_template invoice_text no_data) = 1 / 3"
    by code_simp
  from confidence_in_unit_interval [OF weights, of "regExp stub_host" "[acme]"
      "''Invoice from ACME Corp''" None stub_host invoice_template invoice_text no_data]
  show ?thesis using v1 v2 by simp
qed



subsection \<open>Errors and warnings of the rule loop\<close>

lemma run_rules_split:
  assumes "rules = pre @ rule # post"
  shows "run_rules h t doc sd rules =
           foldl (process_rule h t doc sd)
             (process_rule h t doc sd (run_rules h t doc sd pre) rule) post"
  using assms by (simp add: run_rules_def)

lemma validateField_invalid_iff:
  "isValid (validateField h rule v) \<longleftrightarrow>
     (case validation rule of
        None \<Rightarrow> True
      | Some vld \<Rightarrow>
          if v = JStr [] then \<not> required vld
          else type_errors h (dataType vld) v = []
               \<and> length_errors vld (js_String h v) = []
               \<and> pattern_errors h vld (js_String h v) = [])"
  by (simp add: validateField_def Let_def split: option.splits)

text \<open>
  Claim C2.  A required rule whose extraction gives no value adds an error and no
  warning, and the result then has \<open>success = false\<close> whatever else happens.  A rule
  whose extracted (and mapped) value fails validation adds a warning and no error, and
  the value is stored in \<open>extractedData\<close> under the rule's field name all the same; a
  failed type, length or pattern check makes the validation fail.  The stored value is
  the result's value for the field unless a later rule for the same field name stores
  another one.
\<close>

theorem required_is_error_invalid_is_warning:
  fixes st :: "'n loop_state"
  shows
  "(extractField h rq doc sd = Inr None \<and> rule_required rq \<longrightarrow>
      errors (result (process_rule h t doc sd st rq)) = errors (result st) @ [required_message rq]
      \<and> warnings (result (process_rule h t doc sd st rq)) = warnings (result st))
   \<and> (rq \<in> set (extractionRules t) \<and> extractField h rq doc sd = Inr None \<and> rule_required rq \<longrightarrow>
      required_message rq \<in> set (errors (processDocument h t doc sd))
      \<and> \<not> success (processDocument h t doc sd))
   \<and> (validation rv = Some vld \<and> m \<noteq> JStr []
       \<and> type_errors h (dataType vld) m @ length_errors vld (js_String h m)
            @ pattern_errors h vld (js_String h m) \<noteq> [] \<longrightarrow>
      \<not> isValid (validateField h rv m))
   \<and> (extractField h rv doc sd = Inr (Some v)
       \<and> \<not> isValid (validateField h rv
                (applyHardcodedMappings h (hardcodedMappings t) (fieldName rv) v)) \<longrightarrow>
      errors (result (process_rule h t doc sd st rv)) = errors (result st)
      \<and> warnings (result (process_rule h t doc sd st rv)) =
          warnings (result st)
          @ [validation_message rv (validateField h rv
               (applyHardcodedMappings h (hardcodedMappings t) (fieldName rv) v))]
      \<and> obj_get (extractedData (result (process_rule h t doc sd st rv))) (fieldName rv) =
          Some (applyHardcodedMappings h (hardcodedMappings t) (fieldName rv) v))
   \<and> (extractionRules t = pre @ rv # post \<and> extractField h rv doc sd = Inr (Some v)
       \<and> \<not> isValid (validateField h rv
                (applyHardcodedMappings h (hardcodedMappings t) (fieldName rv) v)) \<longrightarrow>
      validation_message rv (validateField h rv
          (applyHardcodedMappings h (hardcodedMappings t) (fieldName rv) v))
        \<in> set (warnings (processDocument h t doc sd))
      \<and> obj_get (extractedData (processDocument h t doc sd)) (fieldName rv) \<noteq> None
      \<and> ((\<forall>r\<in>set post. fieldName r \<noteq> fieldName rv) \<longrightarrow>
           obj_get (extractedData (processDocument h t doc sd)) (fieldName rv) =
             Some (applyHardcodedMappings h (hardcodedMappings t) (fieldName rv) v)))"
proof (intro conjI impI)
  assume a: "extractField h rq doc sd = Inr None \<and> rule_required rq"
  then show "errors (result (process_rule h t doc sd st rq)) = errors (result st) @ [required_message rq]"
    by (simp add: process_rule_null state_simps)
  from a show "warnings (result (process_rule h t doc sd st rq)) = warnings (result st)"
    by (simp add: process_rule_null state_simps)
next
  assume a: "rq \<in> set (extractionRules t) \<and> extractField h rq doc sd = Inr None \<and> rule_required rq"
  then obtain pre post where sp: "extractionRules t = pre @ rq # post"
    by (meson split_list)
  let ?st = "process_rule h t doc sd (run_rules h t doc sd pre) rq"
  have "required_message rq \<in> set (errors (result ?st))"
    using a by (simp add: process_rule_null state_simps)
  then have "required_message rq \<in> set (errors (result (foldl (process_rule h t doc sd) ?st post)))"
    using foldl_grows [of ?st h t doc sd post] by blast
  then have mem: "required_message rq \<in> set (errors (processDocument h t doc sd))"
    by (simp add: processDocument_def finish_simps run_rules_split [OF sp])
  then show "required_message rq \<in> set (errors (processDocument h t doc sd))" .
  from mem have "errors (processDocument h t doc sd) \<noteq> []" by auto
  then show "\<not> success (processDocument h t doc sd)"
    by (simp add: processDocument_def finish_simps)
next
  assume "validation rv = Some vld \<and> m \<noteq> JStr []
       \<and> type_errors h (dataType vld) m @ length_errors vld (js_String h m)
            @ pattern_errors h vld (js_String h m) \<noteq> []"
  then show "\<not> isValid (validateField h rv m)"
    by (auto simp: validateField_invalid_iff)
next
  let ?m = "applyHardcodedMappings h (hardcodedMappings t) (fieldName rv) v"
  assume a: "extractField h rv doc sd = Inr (Some v) \<and> \<not> isValid (validateField h rv ?m)"
  then show "errors (result (process_rule h t doc sd st rv)) = errors (result st)"
    by (simp add: process_rule_value Let_def state_simps)
  from a show "warnings (result (process_rule h t doc sd st rv)) =
          warnings (result st) @ [validation_message rv (validateField h rv ?m)]"
    by (simp add: process_rule_value Let_def state_simps)
  from a show "obj_get (extractedData (result (process_rule h t doc sd st rv))) (fieldName rv) = Some ?m"
    by (simp add: process_rule_value Let_def state_simps obj_get_obj_set)
next
  let ?m = "applyHardcodedMappings h (hardcodedMappings t) (fieldName rv) v"
  assume a: "extractionRules t = pre @ rv # post \<and> extractField h rv doc sd = Inr (Some v)
       \<and> \<not> isValid (validateField h rv ?m)"
  then have sp: "extractionRules t = pre @ rv # post" by simp
  let ?st = "process_rule h t doc sd (run_rules h t doc sd pre) rv"
  have w: "validation_message rv (validateField h rv ?m) \<in> set (warnings (result ?st))"
    using a by (simp add: process_rule_value Let_def state_simps)
  have d: "obj_get (extractedData (result ?st)) (fieldName rv) = Some ?m"
    using a by (simp add: process_rule_value Let_def state_simps obj_get_obj_set)
  have fin: "processDocument h t doc sd = finish (foldl (process_rule h t doc sd) ?st post)"
    by (simp add: processDocument_def run_rules_split [OF sp])
  show "validation_message rv (validateField h rv ?m) \<in> set (warnings (processDocument h t doc sd))"
    using w foldl_grows [of ?st h t doc sd post] by (auto simp: fin finish_simps)
  show "obj_get (extractedData (processDocument h t doc sd)) (fieldName rv) \<noteq> None"
    using d foldl_grows [of ?st h t doc sd post "fieldName rv"] by (simp add: fin finish_simps)
  show "obj_get (extractedData (processDocument h t doc sd)) (fieldName rv) = Some ?m"
    if "\<forall>r\<in>set post. fieldName r \<noteq> fieldName rv"
    using d foldl_other_fields [OF that, of h t doc sd ?st] by (simp add: fin finish_simps)
qed


theorem required_is_error_invalid_is_warning_witness:
  "errors (processDocument stub_host invoice_template invoice_text no_data)
     = [required_message (extractionRules invoice_template ! 1)]
   \<and> \<not> success (processDocument stub_host invoice_template invoice_text no_data)
   \<and> warnings (processDocument stub_host invoice_template invoice_text no_data)
     = [''Validation failed for total_amount: Value must not exceed 3 characters'']
   \<and> obj_get (extractedData (processDocument stub_host invoice_template invoice_text no_data))
        ''total_amount'' = Some (JStr ''$250.00'')
   \<and> required_message (extractionRules invoice_template ! 1)
        \<in> set (errors (processDocument stub_host invoice_template invoice_text no_data))
   \<and> \<not> isValid (validateField stub_host (extractionRules invoice_template ! 2) (JStr ''$250.00''))"
proof -
  let ?rq = "extractionRules invoice_template ! 1"
  let ?rv = "extractionRules invoice_template ! 2"
  let ?vld = "\<lparr> dataType = DString, required = False, minLength = None,
                 maxLength = Some 3, v_pattern = None \<rparr>"
  let ?v = "JStr ''$250.00'' :: int jsvalue"
  have h1: "extractField stub_host ?rq invoice_text no_data = Inr None \<and> rule_required ?rq"
    by code_simp
  have h2: "?rq \<in> set (extractionRules invoice_template)"
    by code_simp
  have h3: "validation ?rv = Some ?vld \<and> ?v \<noteq> JStr []
       \<and> type_errors stub_host (dataType ?vld) ?v @ length_errors ?vld (js_String stub_host ?v)
            @ pattern_errors stub_host ?vld (js_String stub_host ?v) \<noteq> []"
    by code_simp
  have h4: "extractField stub_host ?rv invoice_text no_data = Inr (Some ?v)"
    by code_simp
  have h5: "applyHardcodedMappings stub_host (hardcodedMappings invoice_template) (fieldName ?rv) ?v = ?v"
    by code_simp
  have h6: "extractionRules invoice_template = take 2 (extractionRules invoice_template) @ ?rv # []"
    by code_simp
  have v1: "errors (processDocument stub_host invoice_template invoice_text no_data) = [required_message ?rq]"
    by code_simp
  have v2: "warnings (processDocument stub_host invoice_template invoice_text no_data)
     = [''Validation failed for total_amount: Value must not exceed 3 characters'']"
    by code_simp
  have v3: "fieldName ?rv = ''total_amount''"
    by code_simp
  from required_is_error_invalid_is_warning
         [where h = stub_host and rq = ?rq and rv = ?rv and doc = invoice_text and sd = no_data
            and t = invoice_template and vld = ?vld and m = ?v and v = ?v
            and pre = "take 2 (extractionRules invoice_template)" and post = "[]"
            and st = initial_state]
  show ?thesis using h1 h2 h3 h4 h5 h6 v1 v2 v3 by simp
qed

subsection \<open>Hardcoded mappings\<close>

lemma first_mapping_find:
  "first_mapping h ms v =
     (case find (\<lambda>m. mapping_matches h m v) ms of
        None \<Rightarrow> v
      | Some m \<Rightarrow> JStr (targetValue m))"
  by (induction ms) auto

lemma find_sorted_least:
  fixes f :: "'a \<Rightarrow> int"
  assumes "sorted (map f xs)" and "find P xs = Some x"
  shows "\<forall>y\<in>set xs. P y \<longrightarrow> f x \<le> f y"
  using assms by (induction xs) (auto split: if_splits)

lemma find_Some_mem: "find P xs = Some x \<Longrightarrow> x \<in> set xs \<and> P x"
  by (induction xs) (auto split: if_splits)

lemma find_None_none: "find P xs = None \<Longrightarrow> \<forall>x\<in>set xs. \<not> P x"
  by (induction xs) (auto split: if_splits)

lemma initialize_sorted:
  assumes "t \<in> set (initialize stored)"
  shows "sorted (map (\<lambda>m. - priority m) (hardcodedMappings t))"
    and "\<forall>m\<in>set (hardcodedMappings t). m_isActive m"
    and "t_isActive t"
proof -
  from assms obtain t0 where t0: "t0 \<in> set stored" "t_isActive t0"
    and t: "t = t0\<lparr>hardcodedMappings :=
                 sort_key (\<lambda>m. - priority m) (filter m_isActive (hardcodedMappings t0))\<rparr>"
    by (auto simp: initialize_def)
  show "sorted (map (\<lambda>m. - priority m) (hardcodedMappings t))"
    by (simp add: t sorted_sort_key)
  show "\<forall>m\<in>set (hardcodedMappings t). m_isActive m"
    by (simp add: t)
  show "t_isActive t" using t0 by (simp add: t)
qed

lemma apply_sorted:
  assumes srt: "sorted (map (\<lambda>m. - priority m) ms)"
    and m1: "m1 \<in> set ms" "m_fieldName m1 = field" "mapping_matches h m1 v"
  shows "\<exists>m\<in>set ms. m_fieldName m = field \<and> mapping_matches h m v
           \<and> (\<forall>m'\<in>set ms. m_fieldName m' = field \<and> mapping_matches h m' v
                 \<longrightarrow> priority m' \<le> priority m)
           \<and> applyHardcodedMappings h ms field v = JStr (targetValue m)"
proof -
  let ?fm = "filter (\<lambda>m. m_fieldName m = field) ms"
  have srt': "sorted (map (\<lambda>m. - priority m) ?fm)"
    using srt by (simp add: sorted_filter)
  have "m1 \<in> set ?fm" using m1 by simp
  with m1(3) have "find (\<lambda>m. mapping_matches h m v) ?fm \<noteq> None"
    using find_None_none [of "\<lambda>m. mapping_matches h m v" ?fm] by blast
  then obtain m where fnd: "find (\<lambda>m. mapping_matches h m v) ?fm = Some m" by blast
  from find_Some_mem [OF fnd] have mem: "m \<in> set ms" "m_fieldName m = field" "mapping_matches h m v"
    by simp_all
  from find_sorted_least [OF srt' fnd]
  have top: "\<forall>m'\<in>set ms. m_fieldName m' = field \<and> mapping_matches h m' v
                 \<longrightarrow> priority m' \<le> priority m"
    by auto
  have "applyHardcodedMappings h ms field v = JStr (targetValue m)"
    by (simp add: applyHardcodedMappings_def first_mapping_find fnd)
  with mem top show ?thesis by blast
qed


text \<open>
  Claim C3.  On the mappings of a template loaded by \<open>initialize\<close>: when two mappings
  for the field both match the value and one has the higher priority, the returned value
  is the target of a matching mapping for the field whose priority is at least that
  higher one and is not exceeded by any matching mapping for the field; when the two are
  the only matching mappings for the field, it is the target of the one with the higher
  priority.
\<close>

theorem higher_priority_mapping_wins:
  assumes "t \<in> set (initialize stored)"
    and "m1 \<in> set (hardcodedMappings t)" and "m2 \<in> set (hardcodedMappings t)"
    and "m_fieldName m1 = field" and "m_fieldName m2 = field"
    and "mapping_matches h m1 v" and "mapping_matches h m2 v"
    and "priority m2 < priority m1"
  shows "(\<exists>m\<in>set (hardcodedMappings t).
            m_fieldName m = field \<and> mapping_matches h m v \<and> priority m1 \<le> priority m
            \<and> (\<forall>m'\<in>set (hardcodedMappings t).
                  m_fieldName m' = field \<and> mapping_matches h m' v \<longrightarrow> priority m' \<le> priority m)
            \<and> applyHardcodedMappings h (hardcodedMappings t) field v = JStr (targetValue m))
         \<and> ((\<forall>m'\<in>set (hardcodedMappings t).
                m_fieldName m' = field \<and> mapping_matches h m' v \<longrightarrow> m' = m1 \<or> m' = m2)
              \<longrightarrow> applyHardcodedMappings h (hardcodedMappings t) field v = JStr (targetValue m1))"
proof -
  let ?ms = "hardcodedMappings t"
  from apply_sorted [OF initialize_sorted(1) [OF assms(1)] assms(2,4,6)]
  obtain m where m: "m \<in> set ?ms" "m_fieldName m = field" "mapping_matches h m v"
    and top: "\<forall>m'\<in>set ?ms. m_fieldName m' = field \<and> mapping_matches h m' v
                 \<longrightarrow> priority m' \<le> priority m"
    and res: "applyHardcodedMappings h ?ms field v = JStr (targetValue m)"
    by blast
  from top assms(2,4,6) have ge: "priority m1 \<le> priority m" by blast
  have only: "applyHardcodedMappings h ?ms field v = JStr (targetValue m1)"
    if "\<forall>m'\<in>set ?ms. m_fieldName m' = field \<and> mapping_matches h m' v \<longrightarrow> m' = m1 \<or> m' = m2"
  proof -
    from that m have "m = m1 \<or> m = m2" by blast
    with ge assms(8) have "m = m1" by auto
    with res show ?thesis by simp
  qed
  from m ge top res only show ?thesis by blast
qed

theorem higher_priority_mapping_wins_witness:
  "hardcodedMappings (hd (initialize stored_templates)) = [freight_high, freight_low]
   \<and> applyHardcodedMappings stub_host (hardcodedMappings (hd (initialize stored_templates)))
        ''description'' (JStr ''Freight charge'') = JStr ''SHIPPING_COST''"
proof -
  let ?t = "hd (initialize stored_templates)"
  let ?v = "JStr ''Freight charge'' :: int jsvalue"
  have ms: "hardcodedMappings ?t = [freight_high, freight_low]" by code_simp
  have h1: "?t \<in> set (initialize stored_templates)" by code_simp
  have h2: "freight_high \<in> set (hardcodedMappings ?t)" "freight_low \<in> set (hardcodedMappings ?t)"
    by (simp_all add: ms)
  have h3: "m_fieldName freight_high = ''description''" "m_fieldName freight_low = ''description''"
    by (simp_all add: freight_high_def freight_low_def)
  have h4: "mapping_matches stub_host freight_high ?v" by code_simp
  have h5: "mapping_matches stub_host freight_low ?v" by code_simp
  have h6: "priority freight_low < priority freight_high"
    by (simp add: freight_high_def freight_low_def)
  have tv: "targetValue freight_high = ''SHIPPING_COST''" by (simp add: freight_high_def)
  from higher_priority_mapping_wins [OF h1 h2 h3 h4 h5 h6]
  have "(\<forall>m'\<in>set (hardcodedMappings ?t).
           m_fieldName m' = ''description'' \<and> mapping_matches stub_host m' ?v
             \<longrightarrow> m' = freight_high \<or> m' = freight_low)
        \<longrightarrow> applyHardcodedMappings stub_host (hardcodedMappings ?t) ''description'' ?v
              = JStr (targetValue freight_high)"
    by blast
  moreover have "\<forall>m'\<in>set (hardcodedMappings ?t).
           m_fieldName m' = ''description'' \<and> mapping_matches stub_host m' ?v
             \<longrightarrow> m' = freight_high \<or> m' = freight_low"
    by (simp add: ms)
  ultimately show ?thesis using ms tv by simp
qed

text \<open>
  Claim C7 at the pattern \<open>fre?ght\<close>.  The wildcard mapping \<open>frei*\<close> rewrites
  \<open>freight charge\<close> to its target, and \<open>matchWildcard\<close> itself accepts \<open>freight\<close>
  for the pattern \<open>fre?ght\<close>; but \<open>applyHardcodedMappings\<close> tries the wildcard match
  only for a pattern that contains a star, so the mapping with the pattern \<open>fre?ght\<close>
  leaves the value \<open>freight\<close> as it is.
\<close>

theorem question_mark_pattern_not_applied:
  "applyHardcodedMappings h [freight_high] ''description'' (JStr ''freight charge'')
     = JStr ''SHIPPING_COST''
   \<and> matchWildcard h ''freight'' ''fre?ght''
   \<and> applyHardcodedMappings h [question_mark_mapping] ''description'' (JStr ''freight'')
     = JStr ''freight''"
proof -
  have star: "CHR ''*'' \<in> set (toLowerCase ''frei*'')" by code_simp
  have w1: "matchWildcard h ''freight charge'' ''frei*''"
    by (simp add: matchWildcard_def glob_to_regex_def syntax_char_def toLowerChar_def
        line_terminator_def)
  have l1: "toLowerCase ''freight charge'' = ''freight charge''" by code_simp
  have l2: "toLowerCase ''frei*'' = ''frei*''" by code_simp
  have m1: "mapping_matches h freight_high (JStr ''freight charge'')"
    by (simp add: mapping_matches_def freight_high_def js_String_def Let_def l1 l2 w1)
  have a: "applyHardcodedMappings h [freight_high] ''description'' (JStr ''freight charge'')
     = JStr ''SHIPPING_COST''"
    using m1 by (simp add: applyHardcodedMappings_def freight_high_def)
  have b: "matchWildcard h ''freight'' ''fre?ght''"
    by (simp add: matchWildcard_def glob_to_regex_def syntax_char_def toLowerChar_def
        line_terminator_def)
  have l3: "toLowerCase ''fre?ght'' = ''fre?ght''" by code_simp
  have l4: "toLowerCase ''freight'' = ''freight''" by code_simp
  have n1: "\<not> js_includes ''freight'' ''fre?ght''" by code_simp
  have n2: "CHR ''*'' \<notin> set ''fre?ght''" by simp
  have m2: "\<not> mapping_matches h question_mark_mapping (JStr ''freight'')"
    using n1 n2 by (simp add: mapping_matches_def question_mark_mapping_def js_String_def Let_def l3 l4)
  have c: "applyHardcodedMappings h [question_mark_mapping] ''description'' (JStr ''freight'')
     = JStr ''freight''"
    using m2 by (simp add: applyHardcodedMappings_def question_mark_mapping_def)
  from a b c show ?thesis by simp
qed

subsection \<open>Template selection\<close>

lemma scoreTemplate_eq:
  "scoreTemplate h t doc = template_points h t doc / (real (length (extractionRules t)) + 3)"
  by (simp add: scoreTemplate_def Let_def)

text \<open>
  Claim C4.  With no template for the customer \<open>selectTemplate\<close> returns nothing; with
  exactly one it returns that one.  With two or more, each is scored by its points over
  the number of its rules plus 3; the best is the first template of the customer's list
  among those of greatest score, and it is returned when its score exceeds 0.3, the first
  template of the list otherwise.
\<close>

theorem selectTemplate_spec:
  "(filter (\<lambda>t. t_customerId t = cid) ts = [] \<longrightarrow> selectTemplate h ts cid doc = None)
   \<and> (filter (\<lambda>t. t_customerId t = cid) ts = [only] \<longrightarrow> selectTemplate h ts cid doc = Some only)
   \<and> (2 \<le> length (filter (\<lambda>t. t_customerId t = cid) ts) \<longrightarrow>
        (\<exists>best\<in>set (filter (\<lambda>t. t_customerId t = cid) ts).
            (\<forall>t\<in>set (filter (\<lambda>t. t_customerId t = cid) ts).
                scoreTemplate h t doc \<le> scoreTemplate h best doc)
            \<and> find (\<lambda>t. scoreTemplate h t doc = scoreTemplate h best doc)
                 (filter (\<lambda>t. t_customerId t = cid) ts) = Some best
            \<and> selectTemplate h ts cid doc =
                (if scoreTemplate h best doc > 3 / 10 then Some best
                 else Some (hd (filter (\<lambda>t. t_customerId t = cid) ts)))))
   \<and> scoreTemplate h t doc = template_points h t doc / (real (length (extractionRules t)) + 3)"
proof (intro conjI impI)
  assume "filter (\<lambda>t. t_customerId t = cid) ts = []"
  then show "selectTemplate h ts cid doc = None"
    by (simp add: selectTemplate_def)
next
  assume "filter (\<lambda>t. t_customerId t = cid) ts = [only]"
  then show "selectTemplate h ts cid doc = Some only"
    by (simp add: selectTemplate_def)
next
  let ?cts = "filter (\<lambda>t. t_customerId t = cid) ts"
  let ?score = "\<lambda>t. scoreTemplate h t doc"
  assume len: "2 \<le> length ?cts"
  then have ne: "?cts \<noteq> []" by auto
  then obtain best rest where srt: "sort_desc ?score ?cts = best # rest"
    using sort_desc_Nil [of ?score ?cts] by (cases "sort_desc ?score ?cts") auto
  from sort_desc_head [OF srt]
  have b: "best \<in> set ?cts" "\<forall>t\<in>set ?cts. ?score t \<le> ?score best"
    "find (\<lambda>t. ?score t = ?score best) ?cts = Some best"
    by blast+
  have "selectTemplate h ts cid doc =
          (if ?score best > 3 / 10 then Some best else Some (hd ?cts))"
    using len srt ne by (simp add: selectTemplate_def Let_def)
  with b show "\<exists>best\<in>set ?cts.
            (\<forall>t\<in>set ?cts. ?score t \<le> ?score best)
            \<and> find (\<lambda>t. ?score t = ?score best) ?cts = Some best
            \<and> selectTemplate h ts cid doc =
                (if ?score best > 3 / 10 then Some best else Some (hd ?cts))"
    by blast
next
  show "scoreTemplate h t doc = template_points h t doc / (real (length (extractionRules t)) + 3)"
    by (rule scoreTemplate_eq)
qed

theorem selectTemplate_spec_witness:
  "map t_id (filter (\<lambda>t. t_customerId t = ''c1'') (initialize stored_templates)) = [''t1'', ''t2'']
   \<and> map (\<lambda>t. scoreTemplate stub_host t invoice_text)
        (filter (\<lambda>t. t_customerId t = ''c1'') (initialize stored_templates)) = [2 / 3, 0]
   \<and> map (\<lambda>t. scoreTemplate stub_host t ''Receipt no. 7'')
        (filter (\<lambda>t. t_customerId t = ''c1'') (initialize stored_templates)) = [0, 2 / 3]
   \<and> map_option t_id (selectTemplate stub_host (initialize stored_templates) ''c1'' invoice_text)
        = Some ''t1''
   \<and> map_option t_id (selectTemplate stub_host (initialize stored_templates) ''c1'' ''Receipt no. 7'')
        = Some ''t2''
   \<and> map_option t_id (selectTemplate stub_host (initialize stored_templates) ''c1'' ''nothing'')
        = Some ''t1''
   \<and> selectTemplate stub_host (initialize stored_templates) ''c2'' invoice_text = None
   \<and> selectTemplate stub_host [invoice_template] ''c1'' ''nothing'' = Some invoice_template
   \<and> selectTemplate stub_host (initialize stored_templates) ''c1'' invoice_text \<noteq> None"
proof -
  let ?ts = "initialize stored_templates"
  have ids: "map t_id (filter (\<lambda>t. t_customerId t = ''c1'') ?ts) = [''t1'', ''t2'']"
    by code_simp
  have s1: "map (\<lambda>t. scoreTemplate stub_host t invoice_text)
        (filter (\<lambda>t. t_customerId t = ''c1'') ?ts) = [2 / 3, 0]"
    by code_simp
  have s2: "map (\<lambda>t. scoreTemplate stub_host t ''Receipt no. 7'')
        (filter (\<lambda>t. t_customerId t = ''c1'') ?ts) = [0, 2 / 3]"
    by code_simp
  have v1: "map_option t_id (selectTemplate stub_host ?ts ''c1'' invoice_text) = Some ''t1''"
    by code_simp
  have v2: "map_option t_id (selectTemplate stub_host ?ts ''c1'' ''Receipt no. 7'') = Some ''t2''"
    by code_simp
  have v3: "map_option t_id (selectTemplate stub_host ?ts ''c1'' ''nothing'') = Some ''t1''"
    by code_simp
  have h0: "filter (\<lambda>t. t_customerId t = ''c2'') ?ts = []" by code_simp
  have h1: "filter (\<lambda>t. t_customerId t = ''c1'') [invoice_template] = [invoice_template]"
    by (simp add: invoice_template_def)
  from selectTemplate_spec [where cid = "''c2''" and ts = ?ts and h = stub_host and doc = invoice_text] h0
  have v4: "selectTemplate stub_host ?ts ''c2'' invoice_text = None" by blast
  from selectTemplate_spec [where cid = "''c1''" and ts = "[invoice_template]" and h = stub_host
         and doc = "''nothing''" and only = invoice_template] h1
  have v5: "selectTemplate stub_host [invoice_template] ''c1'' ''nothing'' = Some invoice_template"
    by blast
  have h2: "2 \<le> length (filter (\<lambda>t. t_customerId t = ''c1'') ?ts)" by code_simp
  from selectTemplate_spec [where cid = "''c1''" and ts = ?ts and h = stub_host
         and doc = invoice_text] h2
  obtain best where
    "selectTemplate stub_host ?ts ''c1'' invoice_text =
       (if scoreTemplate stub_host best invoice_text > 3 / 10 then Some best
        else Some (hd (filter (\<lambda>t. t_customerId t = ''c1'') ?ts)))"
    by blast
  then have v6: "selectTemplate stub_host ?ts ''c1'' invoice_text \<noteq> None"
    by (simp split: if_splits)
  from ids s1 s2 v1 v2 v3 v4 v5 v6 show ?thesis by blast
qed

subsection \<open>Keyword extraction\<close>















subsection \<open>Direct extraction and OCR\<close>




subsection \<open>The orchestrator without a detected customer\<close>

lemma generateCSV_ok:
  assumes "fails sur CsvWrite = None"
  shows "generateCSV sur dat request st =
           Done (st\<lparr>wld := (wld st)\<lparr>w_csv_files :=
                   w_csv_files (wld st) @ [(csv_path sur (fileName request), dat)]\<rparr>\<rparr>)"
  using assms by (simp add: generateCSV_def)

lemma basic_csv_ok:
  assumes "fails sur CsvWrite = None"
  shows "basic_csv sur extracted request cid conf st =
           Done \<lparr> resp = (resp st)
                    \<lparr> csvFilePath := Some (csv_path sur (fileName request)),
                      r_extractedData := Some (basicData sur extracted request cid),
                      r_confidence := conf,
                      r_success := True \<rparr>,
                  wld = (wld st)\<lparr>w_csv_files := w_csv_files (wld st)
                          @ [(csv_path sur (fileName request),
                              basicData sur extracted request cid)]\<rparr> \<rparr>"
  using assms by (simp add: basic_csv_def generateCSV_ok and_then_def)

lemma unknown_customer_branch_ok:
  assumes "fails sur DocumentUpdate = None" and "fails sur CsvWrite = None"
  shows "unknown_customer_branch sur extracted request st =
           Done \<lparr> resp = (resp st)
                    \<lparr> r_warnings := r_warnings (resp st)
                                      @ [''Could not automatically detect customer''],
                      csvFilePath := Some (csv_path sur (fileName request)),
                      r_extractedData := Some (basicData sur extracted request None),
                      r_confidence := 3 / 10,
                      r_success := True \<rparr>,
                  wld = (wld st)\<lparr> w_doc_status := COMPLETED, w_doc_confidence := Some 0,
                          w_csv_files := w_csv_files (wld st)
                          @ [(csv_path sur (fileName request),
                              basicData sur extracted request None)]\<rparr> \<rparr>"
  using assms
  by (simp add: unknown_customer_branch_def attempt_def and_then_def basic_csv_ok
      push_response_warning_def)


text \<open>
  Claim C1.  When the run reaches customer detection (the job is created, the
  orchestrator initialises, the PDF processor returns at least ten characters of text),
  detection returns no customer id, and the calls of this branch to the database and the
  file system succeed, then \<open>processDocument\<close> writes a CSV file of the basic data,
  marks the document COMPLETED (with a stored confidence score of 0), completes the job,
  and returns a response with \<open>success = true\<close>, confidence 0.3, the path of the CSV
  file, no error and one warning.
\<close>

theorem unknown_customer_basic_csv:
  assumes "fails sur JobCreate = None" and "fails sur Initialize = None"
    and "fails sur DocumentUpdate = None" and "fails sur CsvWrite = None"
    and "fails sur JobUpdate = None"
    and "processPDF (pdf sur) (buffer request) = Inr extracted"
    and "10 \<le> length (e_text extracted)"
    and "customerId (detectCustomer (regExp (js sur)) (customers sur) (patterns sur)
           (e_text extracted) (Some (fileName request))) = None"
  shows "\<exists>rsp w. orchestrate sur request w0 = Inr (rsp, w)
           \<and> r_success rsp \<and> r_confidence rsp = 3 / 10
           \<and> csvFilePath rsp = Some (csv_path sur (fileName request))
           \<and> r_extractedData rsp = Some (basicData sur extracted request None)
           \<and> r_errors rsp = []
           \<and> r_warnings rsp = [''Could not automatically detect customer'']
           \<and> w_csv_files w = w_csv_files w0
                @ [(csv_path sur (fileName request), basicData sur extracted request None)]
           \<and> w_doc_status w = COMPLETED \<and> w_doc_confidence w = Some 0
           \<and> w_job_status w = Some JOB_COMPLETED"
proof -
  let ?st0 = "\<lparr> resp = \<lparr> r_success = False, r_documentId = documentId request,
                          processingJobId = job_id sur, r_customerId = None,
                          r_templateId = None, csvFilePath = None,
                          r_extractedData = None, r_confidence = 0,
                          r_errors = [], r_warnings = [] \<rparr>,
                 wld = w0\<lparr>w_job_status := Some RUNNING\<rparr> \<rparr>"
  let ?st1 = "\<lparr> resp = (resp ?st0)
                    \<lparr> r_warnings := r_warnings (resp ?st0)
                                      @ [''Could not automatically detect customer''],
                      csvFilePath := Some (csv_path sur (fileName request)),
                      r_extractedData := Some (basicData sur extracted request None),
                      r_confidence := 3 / 10,
                      r_success := True \<rparr>,
                 wld = (wld ?st0)\<lparr> w_doc_status := COMPLETED, w_doc_confidence := Some 0,
                          w_csv_files := w_csv_files (wld ?st0)
                          @ [(csv_path sur (fileName request),
                              basicData sur extracted request None)]\<rparr> \<rparr>"
  have branch: "unknown_customer_branch sur extracted request ?st0 = Done ?st1"
    by (rule unknown_customer_branch_ok [OF assms(3,4)])
  have tb: "try_block sur request ?st0 =
               Done (?st1\<lparr>wld := (wld ?st1)\<lparr>w_job_status := Some JOB_COMPLETED\<rparr>\<rparr>)"
    using assms(2,5,6,7,8) branch
    by (simp add: try_block_def attempt_def and_then_def Let_def)
  show ?thesis
    using assms(1) tb by (simp add: orchestrate_def Let_def)
qed

theorem unknown_customer_basic_csv_witness:
  "customerId (detectCustomer (regExp stub_host) [acme] Map.empty worded_text (Some ''scan.pdf''))
     = None
   \<and> (\<exists>rsp w. orchestrate (surroundings_failing []) scan_request world_before = Inr (rsp, w)
         \<and> r_success rsp \<and> r_confidence rsp = 3 / 10
         \<and> csvFilePath rsp = Some ''uploads/csv/scan.pdf.csv''
         \<and> map fst (w_csv_files w) = [''uploads/csv/scan.pdf.csv'']
         \<and> w_doc_status w = COMPLETED \<and> w_job_status w = Some JOB_COMPLETED)"
proof -
  let ?sur = "surroundings_failing []"
  have f: "fails ?sur JobCreate = None" "fails ?sur Initialize = None"
    "fails ?sur DocumentUpdate = None" "fails ?sur CsvWrite = None"
    "fails ?sur JobUpdate = None"
    by (simp_all add: surroundings_failing_def)
  have sel: "pdf ?sur = sample_pdf worded_text" "js ?sur = stub_host" "customers ?sur = [acme]"
    "patterns ?sur = Map.empty" "csv_path ?sur ''scan.pdf'' = ''uploads/csv/scan.pdf.csv''"
    "buffer scan_request = ''%PDF''" "fileName scan_request = ''scan.pdf''"
    by (simp_all add: surroundings_failing_def scan_request_def)
  obtain ex where ex: "processPDF (sample_pdf worded_text) ''%PDF'' = Inr ex"
    "e_text ex = worded_text"
  proof -
    have "map_sum id e_text (processPDF (sample_pdf worded_text) ''%PDF'') = Inr worded_text"
      by code_simp
    then show ?thesis
      using that by (cases "processPDF (sample_pdf worded_text) ''%PDF''") auto
  qed
  have len: "10 \<le> length (e_text ex)" unfolding ex(2) by code_simp
  have det: "customerId (detectCustomer (regExp stub_host) [acme] Map.empty worded_text
               (Some ''scan.pdf'')) = None"
    by code_simp
  have p: "processPDF (pdf ?sur) (buffer scan_request) = Inr ex"
    by (simp add: sel ex)
  have d: "customerId (detectCustomer (regExp (js ?sur)) (customers ?sur) (patterns ?sur)
             (e_text ex) (Some (fileName scan_request))) = None"
    by (simp add: sel ex det)
  from unknown_customer_basic_csv [OF f p len d, of world_before]
  obtain rsp w where "orchestrate ?sur scan_request world_before = Inr (rsp, w)"
    "r_success rsp" "r_confidence rsp = 3 / 10"
    "csvFilePath rsp = Some (csv_path ?sur (fileName scan_request))"
    "w_csv_files w = w_csv_files world_before
       @ [(csv_path ?sur (fileName scan_request), basicData ?sur ex scan_request None)]"
    "w_doc_status w = COMPLETED" "w_job_status w = Some JOB_COMPLETED"
    by blast
  then have "orchestrate ?sur scan_request world_before = Inr (rsp, w)
         \<and> r_success rsp \<and> r_confidence rsp = 3 / 10
         \<and> csvFilePath rsp = Some ''uploads/csv/scan.pdf.csv''
         \<and> map fst (w_csv_files w) = [''uploads/csv/scan.pdf.csv'']
         \<and> w_doc_status w = COMPLETED \<and> w_job_status w = Some JOB_COMPLETED"
    by (simp add: sel world_before_def)
  then have "\<exists>rsp w. orchestrate ?sur scan_request world_before = Inr (rsp, w)
         \<and> r_success rsp \<and> r_confidence rsp = 3 / 10
         \<and> csvFilePath rsp = Some ''uploads/csv/scan.pdf.csv''
         \<and> map fst (w_csv_files w) = [''uploads/csv/scan.pdf.csv'']
         \<and> w_doc_status w = COMPLETED \<and> w_job_status w = Some JOB_COMPLETED"
    by (intro exI)
  with det show ?thesis by (intro conjI)
qed

text \<open>
  The assumption on the outside calls is needed: when the CSV file cannot be written the
  exception is caught, the response carries the error and \<open>success = false\<close>, and the
  job and the document end FAILED.
\<close>

lemma csv_write_failure_is_caught:
  "map_sum id (\<lambda>(rsp, w). (r_success rsp, r_confidence rsp, r_errors rsp, csvFilePath rsp,
                            w_doc_status w, w_job_status w))
     (orchestrate (surroundings_failing [CsvWrite]) scan_request world_before)
   = Inr (False, 0, [''CSV generation failed: ENOSPC''], None, FAILED, Some JOB_FAILED)"
  by code_simp

end
